theory Spec2Isabelle
  imports Complex_Main "HOL-Library.Word" "HOL-Library.Sublist"
begin

unbundle bit_operations_syntax

section \<open>Fencing client (lib/fencing/st\_client.c): data model\<close>

text \<open>
  The development follows \<^verbatim>\<open>src/lib/fencing/st_client.c\<close>.  C \<^verbatim>\<open>int\<close> values are
  mathematical integers, and where the code computes with them at the end of the 32-bit
  range the result is brought back into it: the call-id counter is a \<open>32 word\<close>, the
  differences, sums and products of times and timeouts go through \<open>c_int\<close>, and the
  millisecond intervals handed to the GLib main loop are reduced modulo \<open>2 ^ 32\<close>.  A
  \<^verbatim>\<open>char *\<close> that may be
  \<^verbatim>\<open>NULL\<close> is a \<open>string option\<close>; a function pointer is an address, \<open>0\<close> being
  \<^verbatim>\<open>NULL\<close>.
\<close>

subsection \<open>Constants of the headers\<close>

text \<open>
  Modelled from the spec: the result codes and the two signals, which the specification
  names by their role (sections 4.1 and 7) and whose headers are not under src/.  The
  numbers are those of Linux \<^verbatim>\<open><errno.h>\<close> and \<^verbatim>\<open><signal.h>\<close> and of
  \<^verbatim>\<open>crm/common/results.h\<close>.
\<close>

definition pcmk_ok :: int where "pcmk_ok = 0"
definition ECHILD :: int where "ECHILD = 10"
definition EINVAL :: int where "EINVAL = 22"
definition ENOMSG :: int where "ENOMSG = 42"
definition ENODATA :: int where "ENODATA = 61"
definition ETIME :: int where "ETIME = 62"
definition ECOMM :: int where "ECOMM = 70"
definition EPROTO :: int where "EPROTO = 71"
definition ENOTUNIQ :: int where "ENOTUNIQ = 76"
definition EOPNOTSUPP :: int where "EOPNOTSUPP = 95"
definition ECONNABORTED :: int where "ECONNABORTED = 103"
definition ENOTCONN :: int where "ENOTCONN = 107"
definition ETIMEDOUT :: int where "ETIMEDOUT = 110"
definition pcmk_err_generic :: int where "pcmk_err_generic = 201"

definition SIGKILL :: int where "SIGKILL = 9"
definition SIGTERM :: int where "SIGTERM = 15"

text \<open>
  The value a C \<^verbatim>\<open>int\<close> takes when it is given a value outside the 32-bit range, by
  a narrowing conversion or by an operation that runs over: the value modulo \<open>2 ^ 32\<close> in
  the signed range, as on the two's complement machines the library is built for.
\<close>

definition c_int :: "int \<Rightarrow> int" where
  "c_int x = (x + 2 ^ 31) mod 2 ^ 32 - 2 ^ 31"

subsection \<open>The action record\<close>

type_synonym fnptr = nat

record stonith_action =
  agent :: "string option"
  action :: "string option"
  victim :: "string option"
  args :: "string option"
  timeout :: int
  async :: int
  userdata :: nat
  done_cb :: fnptr
  fd_stdout :: int
  fd_stderr :: int
  last_timeout_signo :: int
  initial_start_time :: int
  tries :: int
  remaining_timeout :: int
  timer_sigterm :: nat
  timer_sigkill :: nat
  max_retries :: int
  pid :: int
  rc :: int
  output_text :: "string option"
  error :: "string option"

section \<open>Retry policy\<close>

text \<open>
  \<^verbatim>\<open>update_remaining_timeout\<close>.  The first argument is the value of \<^verbatim>\<open>time(NULL)\<close>.
  The difference of the two \<^verbatim>\<open>time_t\<close> values is stored in \<^verbatim>\<open>int diff\<close>, which keeps
  its low 32 bits.  The C comparison \<^verbatim>\<open>diff < (action->timeout * 0.7)\<close> is made in \<^verbatim>\<open>double\<close>; it is
  taken here over the reals.  (For an elapsed time that is not negative the two agree:
  \<^verbatim>\<open>diff\<close> is an integer, and rounding moves the product of a 32-bit timeout by
  less than a millionth, and not above seven tenths of the timeout when that is an
  integer.)  The result is
  the updated action and the returned \<^verbatim>\<open>gboolean\<close>.
\<close>

definition update_remaining_timeout :: "int \<Rightarrow> stonith_action \<Rightarrow> stonith_action \<times> bool" where
  "update_remaining_timeout now a =
     (let diff = c_int (now - initial_start_time a);
          a' = (if tries a \<ge> max_retries a then a\<lparr>remaining_timeout := 0\<rparr>
                else if rc a \<noteq> - ETIME \<and> real_of_int diff < real_of_int (timeout a) * 0.7
                then a\<lparr>remaining_timeout := c_int (timeout a - diff)\<rparr>
                else a\<lparr>remaining_timeout := 0\<rparr>)
      in (a', remaining_timeout a' \<noteq> 0))"

text \<open>An action in the state left by a first attempt that failed after three seconds.\<close>

definition failed_action :: stonith_action where
  "failed_action =
     \<lparr>agent = Some ''fence_ipmilan'', action = Some ''reboot'', victim = Some ''node2'',
      args = Some ''action=reboot\<newline>'', timeout = 10, async = 1, userdata = 0, done_cb = 7,
      fd_stdout = 5, fd_stderr = 6, last_timeout_signo = 0, initial_start_time = 1000,
      tries = 1, remaining_timeout = 10, timer_sigterm = 0, timer_sigkill = 0,
      max_retries = 2, pid = 4242, rc = - 201, output_text = None, error = Some ''failed'' \<rparr>"

section \<open>Process runner\<close>

subsection \<open>C strings\<close>

text \<open>\<^verbatim>\<open>strstr(haystack, needle) != NULL\<close>: the needle occurs in the haystack.\<close>

fun strstr :: "string \<Rightarrow> string \<Rightarrow> bool" where
  "strstr [] needle = (needle = [])"
| "strstr (c # cs) needle = (prefix needle (c # cs) \<or> strstr cs needle)"

text \<open>
  Modelled from the spec: \<^verbatim>\<open>safe_str_eq\<close> and \<^verbatim>\<open>safe_str_neq\<close> are helpers of
  \<^verbatim>\<open>lib/common\<close>, which is not under src/.  They compare two strings that may be
  \<^verbatim>\<open>NULL\<close>: two \<^verbatim>\<open>NULL\<close>s are equal, a \<^verbatim>\<open>NULL\<close> differs from every string,
  and two strings are compared without regard to the case of ASCII letters.
\<close>

definition tolower :: "char \<Rightarrow> char" where
  "tolower c = (case map_of (zip ''ABCDEFGHIJKLMNOPQRSTUVWXYZ'' ''abcdefghijklmnopqrstuvwxyz'') c of
                  Some l \<Rightarrow> l | None \<Rightarrow> c)"

definition safe_str_eq :: "string option \<Rightarrow> string option \<Rightarrow> bool" where
  "safe_str_eq a b =
     (case (a, b) of
        (None, None) \<Rightarrow> True
      | (Some x, Some y) \<Rightarrow> map tolower x = map tolower y
      | _ \<Rightarrow> False)"

definition safe_str_neq :: "string option \<Rightarrow> string option \<Rightarrow> bool" where
  "safe_str_neq a b = (\<not> safe_str_eq a b)"

text \<open>The decimal digits that \<^verbatim>\<open>snprintf\<close> writes for \<^verbatim>\<open>%u\<close>.\<close>

fun show_nat :: "nat \<Rightarrow> string" where
  "show_nat n = (if n < 10 then [''0123456789'' ! n]
                 else show_nat (n div 10) @ [''0123456789'' ! (n mod 10)])"

declare show_nat.simps [simp del]

subsection \<open>Arguments for the agent\<close>

text \<open>
  Modelled from the spec: the macros \<^verbatim>\<open>CRM_META\<close>, \<^verbatim>\<open>STONITH_ATTR_ACTION_OP\<close> and
  \<^verbatim>\<open>STONITH_ATTR_HOSTARG\<close> of headers that are not under src/: the prefix of the
  cluster's meta attributes, the parameter that names the action, and the parameter
  that names the agent's host argument (spec section 4.1).
\<close>

definition CRM_META :: string where "CRM_META = ''CRM_meta''"
definition STONITH_ATTR_ACTION_OP :: string where "STONITH_ATTR_ACTION_OP = ''action''"
definition STONITH_ATTR_HOSTARG :: string where "STONITH_ATTR_HOSTARG = ''pcmk_host_argument''"

text \<open>
  \<^verbatim>\<open>append_arg(key, value, &args)\<close>, with the new content of \<^verbatim>\<open>*args\<close> as result.
\<close>

definition append_arg :: "string option \<Rightarrow> string option \<Rightarrow> string option \<Rightarrow> string option" where
  "append_arg key val arg_list =
     (case key of
        None \<Rightarrow> arg_list
      | Some k \<Rightarrow>
          (case val of
             None \<Rightarrow> arg_list
           | Some v \<Rightarrow>
               if strstr k ''pcmk_'' then arg_list
               else if strstr k CRM_META then arg_list
               else if safe_str_eq (Some k) (Some ''crm_feature_set'') then arg_list
               else Some ((case arg_list of None \<Rightarrow> [] | Some a \<Rightarrow> a) @ k @ ''='' @ v @ ''\<newline>'')))"

definition append_config_arg :: "string \<Rightarrow> string \<Rightarrow> string option \<Rightarrow> string option" where
  "append_config_arg key val user_data =
     (if safe_str_neq (Some key) (Some STONITH_ATTR_ACTION_OP)
      then append_arg (Some key) (Some val) user_data
      else user_data)"

text \<open>
  \<^verbatim>\<open>make_args\<close>.  A hash table of parameters is the list of its entries in the order
  in which \<^verbatim>\<open>g_hash_table_foreach\<close> visits them, with distinct keys; \<open>None\<close> is a
  \<^verbatim>\<open>NULL\<close> table.  The buffer for the name of the action override holds 511
  characters.  Two parts of the function come first: the choice of the parameter that
  names the victim, with the value that decides whether it is supplied
  (\<^verbatim>\<open>param\<close> and \<^verbatim>\<open>value\<close> in the chain that begins with the test for
  \<^verbatim>\<open>fence_legacy\<close>), and the block \<^verbatim>\<open>if (victim && device_args)\<close> as a whole.
\<close>

definition victim_param ::
  "string option \<Rightarrow> (string \<times> string) list \<Rightarrow> string option \<times> string option" where
  "victim_param agent_name da =
     (let param = map_of da STONITH_ATTR_HOSTARG
      in if safe_str_eq agent_name (Some ''fence_legacy'') then (param, agent_name)
         else (case param of
                 None \<Rightarrow> (Some ''port'', map_of da ''port'')
               | Some p \<Rightarrow> if safe_str_eq param (Some ''none'') then (param, param)
                           else (param, map_of da p)))"

definition victim_args ::
  "string option \<Rightarrow> string \<Rightarrow> nat \<Rightarrow> (string \<times> string) list
     \<Rightarrow> (string \<times> string) list option \<Rightarrow> string option \<Rightarrow> string option" where
  "victim_args agent_name vic victim_nodeid da port_map arg_list =
     (let alias = (case port_map of
                     None \<Rightarrow> vic
                   | Some pm \<Rightarrow> (case map_of pm vic of None \<Rightarrow> vic | Some a \<Rightarrow> a));
          l1 = append_arg (Some ''nodename'') (Some vic) arg_list;
          l2 = (if victim_nodeid \<noteq> 0
                then append_arg (Some ''nodeid'') (Some (show_nat victim_nodeid)) l1
                else l1);
          (param, val) = victim_param agent_name da
      in if val = None \<or> safe_str_eq val (Some ''dynamic'')
         then append_arg param (Some alias) l2
         else l2)"

definition make_args ::
  "string option \<Rightarrow> string option \<Rightarrow> string option \<Rightarrow> nat
     \<Rightarrow> (string \<times> string) list option \<Rightarrow> (string \<times> string) list option \<Rightarrow> string option" where
  "make_args agent_name action_name victim_name victim_nodeid device_args port_map =
     (case action_name of
        None \<Rightarrow> None
      | Some action0 \<Rightarrow>
          (let buffer = take 511 (''pcmk_'' @ action0 @ ''_action'');
               value0 = (case device_args of None \<Rightarrow> None | Some da \<Rightarrow> map_of da buffer);
               act = (case value0 of None \<Rightarrow> action0 | Some v \<Rightarrow> v);
               arg_list1 = append_arg (Some STONITH_ATTR_ACTION_OP) (Some act) None;
               arg_list2 =
                 (case victim_name of
                    None \<Rightarrow> arg_list1
                  | Some vic \<Rightarrow>
                      (case device_args of
                         None \<Rightarrow> arg_list1
                       | Some da \<Rightarrow> victim_args agent_name vic victim_nodeid da port_map arg_list1))
           in case device_args of
                None \<Rightarrow> arg_list2
              | Some da \<Rightarrow> fold (\<lambda>kv. append_config_arg (fst kv) (snd kv)) da arg_list2))"

text \<open>
  The reading of the argument block by an agent: the lines that end in a newline, and
  the key of a line, which is what precedes its first \<^verbatim>\<open>=\<close>.  The keys that
  \<^verbatim>\<open>append_arg\<close> drops, and the keys that the specification reserves: those that
  begin with \<^verbatim>\<open>pcmk_\<close> or with the prefix of the meta attributes, and
  \<^verbatim>\<open>crm_feature_set\<close>.
\<close>

fun lines_from :: "string \<Rightarrow> string \<Rightarrow> string list" where
  "lines_from cur [] = []"
| "lines_from cur (c # cs) =
     (if c = CHR ''\<newline>'' then rev cur # lines_from [] cs else lines_from (c # cur) cs)"

definition lines_of :: "string \<Rightarrow> string list" where
  "lines_of blob = lines_from [] blob"

definition line_key :: "string \<Rightarrow> string" where
  "line_key l = takeWhile (\<lambda>c. c \<noteq> CHR ''='') l"

definition filtered_key :: "string \<Rightarrow> bool" where
  "filtered_key k =
     (strstr k ''pcmk_'' \<or> strstr k CRM_META \<or> safe_str_eq (Some k) (Some ''crm_feature_set''))"

definition reserved_key :: "string \<Rightarrow> bool" where
  "reserved_key k = (prefix ''pcmk_'' k \<or> prefix CRM_META k \<or> k = ''crm_feature_set'')"

text \<open>
  Parameters that the line format can carry: a name has no \<^verbatim>\<open>=\<close> and no newline, a
  value has no newline.  The names are the keys of the device parameters and the value
  of the host argument parameter; the values are those of the device parameters and of
  the port map, the action and the target.
\<close>

definition plain_key :: "string \<Rightarrow> bool" where
  "plain_key k = (CHR ''='' \<notin> set k \<and> CHR ''\<newline>'' \<notin> set k)"

definition one_line :: "string \<Rightarrow> bool" where
  "one_line v = (CHR ''\<newline>'' \<notin> set v)"

definition carried ::
  "string option \<Rightarrow> string option \<Rightarrow> (string \<times> string) list option
     \<Rightarrow> (string \<times> string) list option \<Rightarrow> bool" where
  "carried action_name victim_name device_args port_map =
     (list_all one_line (case action_name of None \<Rightarrow> [] | Some a \<Rightarrow> [a])
      \<and> list_all one_line (case victim_name of None \<Rightarrow> [] | Some v \<Rightarrow> [v])
      \<and> list_all (\<lambda>kv. plain_key (fst kv) \<and> one_line (snd kv))
           (case device_args of None \<Rightarrow> [] | Some da \<Rightarrow> da)
      \<and> list_all (\<lambda>kv. fst kv = STONITH_ATTR_HOSTARG \<longrightarrow> plain_key (snd kv))
           (case device_args of None \<Rightarrow> [] | Some da \<Rightarrow> da)
      \<and> list_all (\<lambda>kv. one_line (snd kv)) (case port_map of None \<Rightarrow> [] | Some pm \<Rightarrow> pm))"

text \<open>
  The block written for a list of pairs, each on its line; the lists whose pairs
  \<^verbatim>\<open>append_arg\<close> accepts and the line format can carry; and the argument lists
  (\<open>None\<close> before the first line is written) that hold such a block.
\<close>

definition rendered :: "(string \<times> string) list \<Rightarrow> string" where
  "rendered ps = concat (map (\<lambda>kv. fst kv @ ''='' @ snd kv @ ''\<newline>'') ps)"

definition accepted :: "(string \<times> string) list \<Rightarrow> bool" where
  "accepted ps =
     list_all (\<lambda>kv. \<not> filtered_key (fst kv) \<and> plain_key (fst kv) \<and> one_line (snd kv)) ps"

definition block_of :: "string option \<Rightarrow> (string \<times> string) list \<Rightarrow> bool" where
  "block_of arg_list ps =
     ((case arg_list of None \<Rightarrow> [] | Some a \<Rightarrow> a) = rendered ps \<and> accepted ps)"

definition ipmi_args :: "(string \<times> string) list" where
  "ipmi_args = [(''ipaddr'', ''10.0.0.7''), (''pcmk_host_list'', ''node2''),
                (''CRM_meta_timeout'', ''20000''), (''crm_feature_set'', ''3.1.0''),
                (''login'', ''admin'')]"

subsection \<open>The main loop and the operating system\<close>

text \<open>
  GLib is an external library.  Of its main loop the model keeps the timeout sources:
  \<^verbatim>\<open>g_timeout_add(interval, f, data)\<close> registers a source that is due \<open>interval\<close>
  milliseconds after the call and returns its id, which is not \<open>0\<close>;
  \<^verbatim>\<open>g_source_remove(id)\<close> removes it.  The interval parameter is a \<^verbatim>\<open>guint\<close>:
  \<open>guint\<close> is the conversion of a C \<^verbatim>\<open>int\<close> expression to it.
\<close>

record 'cb gsource =
  src_id :: nat
  src_interval :: nat
  src_due :: nat
  src_cb :: 'cb

record 'cb mainloop =
  clock :: nat
  sources :: "'cb gsource list"
  last_source :: nat

definition guint :: "int \<Rightarrow> nat" where
  "guint x = nat (x mod 2 ^ 32)"

definition g_timeout_add :: "nat \<Rightarrow> 'cb \<Rightarrow> 'cb mainloop \<Rightarrow> nat \<times> 'cb mainloop" where
  "g_timeout_add interval cb ml =
     (let i = Suc (last_source ml)
      in (i, ml\<lparr>sources := sources ml @
                     [\<lparr>src_id = i, src_interval = interval, src_due = clock ml + interval,
                       src_cb = cb\<rparr>],
                 last_source := i\<rparr>))"

definition g_source_remove :: "nat \<Rightarrow> 'cb mainloop \<Rightarrow> 'cb mainloop" where
  "g_source_remove i ml = ml\<lparr>sources := filter (\<lambda>s. src_id s \<noteq> i) (sources ml)\<rparr>"

text \<open>
  The two timeout callbacks of the runner; their \<^verbatim>\<open>data\<close> is the action.  The world
  of the runner is the main loop, the \<^verbatim>\<open>kill(pid, sig)\<close> calls made so far, the
  children handed to \<^verbatim>\<open>mainloop_child_add\<close>, and the calls of \<^verbatim>\<open>done_cb(pid, rc,
  output, userdata)\<close> made so far.  Descriptors are kept as the numbers stored in the
  action; their closing is not recorded.
\<close>

datatype child_timer = St_child_term | St_child_kill

record exec_world =
  loop :: "child_timer mainloop"
  kills :: "(int \<times> int) list"
  watched :: "int list"
  completions :: "(fnptr \<times> int \<times> int \<times> string option \<times> nat) list"

text \<open>
  What the operating system answers during one call of
  \<^verbatim>\<open>internal_stonith_action_execute\<close>: the three \<^verbatim>\<open>pipe\<close> calls and \<^verbatim>\<open>fork\<close>
  (with the parent's read ends of the output and error pipes, the number of bytes of
  the argument block accepted by the \<^verbatim>\<open>write\<close> loop and the value of the last
  \<^verbatim>\<open>write\<close>); for a synchronous action, whether the \<open>i\<close>-th \<^verbatim>\<open>waitpid(WNOHANG)\<close>
  reports the child, and the wait status; what \<^verbatim>\<open>read\<close> delivers from the two pipes
  (\<open>None\<close> when the first \<^verbatim>\<open>read\<close> delivers nothing); and \<^verbatim>\<open>time(NULL)\<close>.
\<close>

datatype wstatus = WExited int | WSignaled int | WOther

datatype spawn_outcome =
    Pipe_failed
  | Fork_failed
  | Forked (child_pid: int) (p_read_fd: int) (p_stderr_fd: int) (written: int) (last_write: int)

record exec_env =
  wall_clock :: int
  spawn :: spawn_outcome
  child_reported :: "nat \<Rightarrow> bool"
  wait_status :: wstatus
  pipe_stdout :: "string option"
  pipe_stderr :: "string option"

subsection \<open>Timeout callbacks\<close>

definition st_child_term :: "stonith_action \<Rightarrow> exec_world \<Rightarrow> (stonith_action \<times> exec_world) \<times> bool" where
  "st_child_term track w =
     ((track\<lparr>timer_sigterm := 0, last_timeout_signo := SIGTERM\<rparr>,
       w\<lparr>kills := kills w @ [(- pid track, SIGTERM)]\<rparr>), False)"

definition st_child_kill :: "stonith_action \<Rightarrow> exec_world \<Rightarrow> (stonith_action \<times> exec_world) \<times> bool" where
  "st_child_kill track w =
     ((track\<lparr>timer_sigkill := 0, last_timeout_signo := SIGKILL\<rparr>,
       w\<lparr>kills := kills w @ [(- pid track, SIGKILL)]\<rparr>), False)"

text \<open>
  The main loop dispatches a timeout source once its time has come and removes it when
  the callback returns \<^verbatim>\<open>FALSE\<close>.  \<open>mainloop_run_until t\<close> lets the loop run until
  time \<open>t\<close>: the sources due by then are dispatched in the order of their due times,
  unless removed before their turn.
\<close>

definition dispatch_source :: "stonith_action \<times> exec_world \<Rightarrow> child_timer gsource \<Rightarrow> stonith_action \<times> exec_world" where
  "dispatch_source aw s =
     (let (a, w) = aw
      in if s \<in> set (sources (loop w))
         then (let ((a', w'), again) =
                     (case src_cb s of St_child_term \<Rightarrow> st_child_term a w
                                     | St_child_kill \<Rightarrow> st_child_kill a w)
               in if again then (a', w')
                  else (a', w'\<lparr>loop := g_source_remove (src_id s) (loop w')\<rparr>))
         else (a, w))"

definition mainloop_run_until :: "nat \<Rightarrow> stonith_action \<times> exec_world \<Rightarrow> stonith_action \<times> exec_world" where
  "mainloop_run_until t aw =
     (let (a, w) = aw;
          due = sort_key src_due (filter (\<lambda>s. src_due s \<le> t) (sources (loop w)))
      in foldl dispatch_source (a, w\<lparr>loop := (loop w)\<lparr>clock := max t (clock (loop w))\<rparr>\<rparr>) due)"

subsection \<open>Tracking data\<close>

text \<open>
  The removal of the two timers is written out twice in the source, at the head of
  \<^verbatim>\<open>stonith_action_clear_tracking_data\<close> and of \<^verbatim>\<open>stonith_action_async_done\<close>.
\<close>

definition remove_timers :: "stonith_action \<Rightarrow> exec_world \<Rightarrow> stonith_action \<times> exec_world" where
  "remove_timers a w =
     (let (a1, w1) = (if timer_sigterm a > 0
                      then (a\<lparr>timer_sigterm := 0\<rparr>,
                            w\<lparr>loop := g_source_remove (timer_sigterm a) (loop w)\<rparr>)
                      else (a, w))
      in if timer_sigkill a1 > 0
         then (a1\<lparr>timer_sigkill := 0\<rparr>,
               w1\<lparr>loop := g_source_remove (timer_sigkill a1) (loop w1)\<rparr>)
         else (a1, w1))"

definition stonith_action_clear_tracking_data :: "stonith_action \<Rightarrow> exec_world \<Rightarrow> stonith_action \<times> exec_world" where
  "stonith_action_clear_tracking_data a w =
     (let (a2, w2) = remove_timers a w
      in (a2\<lparr>fd_stdout := 0, fd_stderr := 0, output_text := None, error := None, rc := 0,
              pid := 0, last_timeout_signo := 0\<rparr>, w2))"

text \<open>\<^verbatim>\<open>stonith__destroy_action\<close> frees the action: only the world remains.\<close>

definition stonith__destroy_action :: "stonith_action \<Rightarrow> exec_world \<Rightarrow> exec_world" where
  "stonith__destroy_action a w = snd (stonith_action_clear_tracking_data a w)"

text \<open>
  \<^verbatim>\<open>read_output(fd)\<close>: \<^verbatim>\<open>NULL\<close> for descriptor \<open>0\<close>, otherwise what the pipe
  delivers.
\<close>

definition read_output :: "int \<Rightarrow> string option \<Rightarrow> string option" where
  "read_output fd delivered = (if fd = 0 then None else delivered)"

subsection \<open>Executing an action\<close>

text \<open>
  The polling loop of a synchronous action,
  \<^verbatim>\<open>while (action->remaining_timeout < 0 || timeout > 0)\<close>, with the index of the
  poll and the local \<^verbatim>\<open>int timeout\<close>: it yields the value of \<^verbatim>\<open>timeout\<close> at its
  end and whether a \<^verbatim>\<open>waitpid\<close> reported the child, and does not end when the
  remaining timeout is negative and the child is never reported.
\<close>

partial_function (option) sync_wait ::
  "(nat \<Rightarrow> bool) \<Rightarrow> int \<Rightarrow> nat \<Rightarrow> int \<Rightarrow> (int \<times> bool) option" where
  "sync_wait reported remaining i t =
     (if remaining < 0 \<or> t > 0
      then (if reported i then Some (t, True)
            else sync_wait reported remaining (Suc i) (c_int (t - 1)))
      else Some (t, False))"

declare sync_wait.simps [code]

text \<open>
  \<^verbatim>\<open>internal_stonith_action_execute\<close>, as run by the parent process.  The result is
  the returned code with the action and the world, or \<open>None\<close> when the polling loop
  does not end.  The local \<^verbatim>\<open>timeout\<close> of the synchronous branch starts at
  \<^verbatim>\<open>remaining_timeout + 1\<close>, which runs over at \<^verbatim>\<open>INT_MAX\<close>; the loop is then
  skipped and \<^verbatim>\<open>status\<close> still holds its initial \<open>0\<close>, the status of a child that
  exited with code \<open>0\<close>.
\<close>

definition internal_stonith_action_execute ::
  "exec_env \<Rightarrow> stonith_action \<Rightarrow> exec_world \<Rightarrow> (int \<times> stonith_action \<times> exec_world) option" where
  "internal_stonith_action_execute env a0 w0 =
     (let (a1, w1) = stonith_action_clear_tracking_data a0 w0;
          a2 = (if tries a1 = 0 then a1\<lparr>initial_start_time := wall_clock env\<rparr> else a1);
          a3 = a2\<lparr>tries := tries a2 + 1\<rparr>
      in case (args a3, agent a3) of
           (Some blob, Some _) \<Rightarrow>
             (case spawn env of
                Pipe_failed \<Rightarrow> Some (- EPROTO, a3, w1)
              | Fork_failed \<Rightarrow> Some (- ECHILD, a3, w1)
              | Forked p rfd efd sent ret \<Rightarrow>
                  (let a4 = a3\<lparr>pid := p\<rparr>
                   in if sent \<noteq> int (length blob)
                      then Some (if ret \<ge> 0 then - ECOMM else - EPROTO, a4, w1)
                      else if async a4 \<noteq> 0
                      then (let a5 = a4\<lparr>fd_stdout := rfd, fd_stderr := efd\<rparr>;
                                w2 = w1\<lparr>watched := watched w1 @ [p]\<rparr>;
                                a6 = a5\<lparr>last_timeout_signo := 0\<rparr>
                            in if remaining_timeout a6 \<noteq> 0
                               then (let (t1, l1) = g_timeout_add
                                            (guint (1000 * remaining_timeout a6))
                                            St_child_term (loop w2);
                                         (t2, l2) = g_timeout_add
                                            (guint (1000 * (remaining_timeout a6 + 5)))
                                            St_child_kill l1
                                     in Some (0, a6\<lparr>timer_sigterm := t1, timer_sigkill := t2\<rparr>,
                                              w2\<lparr>loop := l2\<rparr>))
                               else Some (0, a6, w2))
                      else (case sync_wait (child_reported env) (remaining_timeout a4) 0
                                   (c_int (remaining_timeout a4 + 1)) of
                              None \<Rightarrow> None
                            | Some (t, seen) \<Rightarrow>
                                (let w2 = (if t = 0 then w1\<lparr>kills := kills w1 @ [(- p, SIGKILL)]\<rparr>
                                           else w1);
                                     status = (if seen then wait_status env else WExited 0);
                                     a5 = a4\<lparr>output_text := read_output rfd (pipe_stdout env),
                                             error := read_output efd (pipe_stderr env),
                                             rc := - ECONNABORTED\<rparr>
                                 in if t = 0 then Some (- ECONNABORTED, a5\<lparr>rc := - ETIME\<rparr>, w2)
                                    else (case status of
                                            WExited c \<Rightarrow> Some (0, a5\<lparr>rc := - c\<rparr>, w2)
                                          | _ \<Rightarrow> Some (- ECONNABORTED, a5, w2))))))
         | _ \<Rightarrow> Some (- EPROTO, a3, w1))"

subsection \<open>Completion of an asynchronous action\<close>

text \<open>
  The result code that \<^verbatim>\<open>stonith_action_async_done\<close> stores in \<^verbatim>\<open>action->rc\<close>
  from \<^verbatim>\<open>last_timeout_signo\<close>, the signal, the exit code and the error text read.
\<close>

definition async_done_rc :: "stonith_action \<Rightarrow> int \<Rightarrow> int \<Rightarrow> int" where
  "async_done_rc a signo exitcode =
     (if last_timeout_signo a \<noteq> 0 then - ETIME
      else if signo \<noteq> 0 then - ECONNABORTED
      else if exitcode > 0
      then (case error a of
              None \<Rightarrow> - ENODATA
            | Some e \<Rightarrow> if strstr e ''imed out'' then - ETIMEDOUT
                        else if strstr e ''Unrecognised action'' then - EOPNOTSUPP
                        else - pcmk_err_generic)
      else exitcode)"

text \<open>
  The end of \<^verbatim>\<open>stonith_action_async_done\<close>: the completion callback, if any, then
  the destruction of the action.
\<close>

definition complete_action :: "int \<Rightarrow> stonith_action \<Rightarrow> exec_world \<Rightarrow> exec_world" where
  "complete_action p a w =
     stonith__destroy_action a
       (if done_cb a \<noteq> 0
        then w\<lparr>completions := completions w @ [(done_cb a, p, rc a, output_text a, userdata a)]\<rparr>
        else w)"

text \<open>
  \<^verbatim>\<open>stonith_action_async_done\<close>.  The action that remains is \<open>None\<close> after its
  destruction, and the action of the new attempt when the retry started.
\<close>

definition stonith_action_async_done ::
  "exec_env \<Rightarrow> int \<Rightarrow> int \<Rightarrow> int \<Rightarrow> stonith_action \<Rightarrow> exec_world
     \<Rightarrow> (stonith_action option \<times> exec_world) option" where
  "stonith_action_async_done env p signo exitcode a0 w0 =
     (let (a1, w1) = remove_timers a0 w0;
          a2 = a1\<lparr>output_text := read_output (fd_stdout a1) (pipe_stdout env)\<rparr>;
          a3 = a2\<lparr>error := read_output (fd_stderr a2) (pipe_stderr env)\<rparr>;
          a4 = a3\<lparr>rc := async_done_rc a3 signo exitcode\<rparr>
      in if rc a4 \<noteq> pcmk_ok
         then (let (a5, retry) = update_remaining_timeout (wall_clock env) a4
               in if retry
                  then (case internal_stonith_action_execute env a5 w1 of
                          None \<Rightarrow> None
                        | Some (r, a6, w6) \<Rightarrow>
                            if r = pcmk_ok then Some (Some a6, w6)
                            else Some (None, complete_action p a6 w6))
                  else Some (None, complete_action p a5 w1))
         else Some (None, complete_action p a4 w1))"

text \<open>A world with an idle main loop, and an action about to be run asynchronously.\<close>

definition idle_world :: exec_world where
  "idle_world = \<lparr>loop = \<lparr>clock = 0, sources = [], last_source = 0\<rparr>, kills = [],
                 watched = [], completions = []\<rparr>"

definition new_action :: stonith_action where
  "new_action =
     \<lparr>agent = Some ''fence_ipmilan'', action = Some ''reboot'', victim = Some ''node2'',
      args = Some ''action=reboot\<newline>'', timeout = 10, async = 1, userdata = 0, done_cb = 7,
      fd_stdout = 0, fd_stderr = 0, last_timeout_signo = 0, initial_start_time = 0,
      tries = 0, remaining_timeout = 10, timer_sigterm = 0, timer_sigkill = 0,
      max_retries = 2, pid = 0, rc = 0, output_text = None, error = None\<rparr>"

definition good_spawn :: exec_env where
  "good_spawn = \<lparr>wall_clock = 1000, spawn = Forked 4242 5 6 14 14,
                 child_reported = (\<lambda>i. False), wait_status = WExited 0,
                 pipe_stdout = None, pipe_stderr = None\<rparr>"

text \<open>
  An action whose child is running, in the world that holds its two timers; and the
  same action when the agent has written a warning to its standard error.
\<close>

definition running_action :: stonith_action where
  "running_action = new_action\<lparr>fd_stdout := 5, fd_stderr := 6, initial_start_time := 1000,
     tries := 1, timer_sigterm := 1, timer_sigkill := 2, pid := 4242\<rparr>"

definition running_world :: exec_world where
  "running_world =
     \<lparr>loop = \<lparr>clock = 0,
               sources = [\<lparr>src_id = 1, src_interval = 10000, src_due = 10000,
                           src_cb = St_child_term\<rparr>,
                          \<lparr>src_id = 2, src_interval = 15000, src_due = 15000,
                           src_cb = St_child_kill\<rparr>],
               last_source = 2\<rparr>,
      kills = [], watched = [4242], completions = []\<rparr>"

definition warned_exit :: exec_env where
  "warned_exit = good_spawn\<lparr>wall_clock := 1002,
                             pipe_stderr := Some ''login timed out, retrying''\<rparr>"

section \<open>IPC session\<close>

subsection \<open>Messages\<close>

text \<open>
  Modelled from the spec: the XML library (\<^verbatim>\<open>crm/common/xml.h\<close>) is not under src/.
  A message is an element with attributes and named children (the envelopes of spec
  section 6).  Attributes written with \<^verbatim>\<open>crm_xml_add_int\<close> and read with
  \<^verbatim>\<open>crm_element_value_int\<close> are kept as integers, the others as strings.
  \<^verbatim>\<open>crm_xml_add\<close> with a \<^verbatim>\<open>NULL\<close> value adds nothing;
  \<^verbatim>\<open>crm_element_value_int(data, name, &dest)\<close> returns \<open>0\<close> and stores the value
  when the element has the attribute, and returns \<open>-1\<close> leaving \<open>dest\<close> as it was
  when the element is \<^verbatim>\<open>NULL\<close> or has no such attribute.
\<close>

datatype xmlNode =
  XmlNode (xml_name: string) (xml_strs: "(string \<times> string) list")
    (xml_ints: "(string \<times> int) list") (xml_children: "(string \<times> xmlNode) list")

definition create_xml_node :: "string \<Rightarrow> xmlNode" where
  "create_xml_node name = XmlNode name [] [] []"

definition set_attr :: "'k \<Rightarrow> 'v \<Rightarrow> ('k \<times> 'v) list \<Rightarrow> ('k \<times> 'v) list" where
  "set_attr k v al = filter (\<lambda>kv. fst kv \<noteq> k) al @ [(k, v)]"

definition crm_xml_add :: "xmlNode \<Rightarrow> string \<Rightarrow> string option \<Rightarrow> xmlNode" where
  "crm_xml_add node name val =
     (case val of
        None \<Rightarrow> node
      | Some v \<Rightarrow> XmlNode (xml_name node) (set_attr name v (xml_strs node)) (xml_ints node)
                   (xml_children node))"

definition crm_xml_add_int :: "xmlNode \<Rightarrow> string \<Rightarrow> int \<Rightarrow> xmlNode" where
  "crm_xml_add_int node name v =
     XmlNode (xml_name node) (xml_strs node) (set_attr name v (xml_ints node))
       (xml_children node)"

definition add_message_xml :: "xmlNode \<Rightarrow> string \<Rightarrow> xmlNode \<Rightarrow> xmlNode" where
  "add_message_xml node field child =
     XmlNode (xml_name node) (xml_strs node) (xml_ints node)
       (xml_children node @ [(field, child)])"

definition crm_element_value_int :: "xmlNode option \<Rightarrow> string \<Rightarrow> int \<Rightarrow> int \<times> int" where
  "crm_element_value_int data name dest =
     (case data of
        None \<Rightarrow> (- 1, dest)
      | Some n \<Rightarrow> (case map_of (xml_ints n) name of None \<Rightarrow> (- 1, dest) | Some v \<Rightarrow> (0, v)))"

text \<open>
  Modelled from the spec: the field names and option bits of \<^verbatim>\<open>crm/stonith-ng.h\<close>,
  \<^verbatim>\<open>crm/fencing/internal.h\<close> and \<^verbatim>\<open>crm/msg_xml.h\<close>, which are not under src/
  (spec section 6 names the fields and the flags).
\<close>

definition F_TYPE :: string where "F_TYPE = ''t''"
definition F_XML_TAGNAME :: string where "F_XML_TAGNAME = ''__name__''"
definition F_STONITH_CALLBACK_TOKEN :: string where "F_STONITH_CALLBACK_TOKEN = ''st_async_id''"
definition F_STONITH_OPERATION :: string where "F_STONITH_OPERATION = ''st_op''"
definition F_STONITH_CALLID :: string where "F_STONITH_CALLID = ''st_callid''"
definition F_STONITH_CALLOPTS :: string where "F_STONITH_CALLOPTS = ''st_callopt''"
definition F_STONITH_CALLDATA :: string where "F_STONITH_CALLDATA = ''st_calldata''"
definition F_STONITH_RC :: string where "F_STONITH_RC = ''st_rc''"
definition F_STONITH_TIMEOUT :: string where "F_STONITH_TIMEOUT = ''st_timeout''"
definition F_STONITH_NOTIFY_ACTIVATE :: string where
  "F_STONITH_NOTIFY_ACTIVATE = ''st_notify_activate''"
definition F_STONITH_NOTIFY_DEACTIVATE :: string where
  "F_STONITH_NOTIFY_DEACTIVATE = ''st_notify_deactivate''"
definition T_STONITH_NG :: string where "T_STONITH_NG = ''stonith-ng''"
definition T_STONITH_NOTIFY :: string where "T_STONITH_NOTIFY = ''st_notify''"

definition st_opt_discard_reply :: int where "st_opt_discard_reply = 0x00000010"
definition st_opt_sync_call :: int where "st_opt_sync_call = 0x00001000"

subsection \<open>The session and its world\<close>

datatype stonith_state = stonith_connected_command | stonith_connected_query | stonith_disconnected

record timer_rec =
  t_call_id :: int
  t_timeout :: int
  t_ref :: nat

record stonith_callback_client =
  callback :: fnptr
  client_id :: "string option"
  user_data :: nat
  only_success :: bool
  allow_timeout_updates :: bool
  timer :: "timer_rec option"

record stonith_notify_client =
  event :: "string option"
  notify :: fnptr

text \<open>
  \<^verbatim>\<open>stonith_t\<close> with its \<^verbatim>\<open>stonith_private_t\<close>.  The counter \<^verbatim>\<open>call_id\<close> is a C
  \<^verbatim>\<open>int\<close> that the code lets run over: it is a 32-bit word, read with \<open>sint\<close>.
  The hash table of callbacks is a list of entries with distinct call ids, looked up
  with \<open>map_of\<close>.  The connection handles are left to the world.
\<close>

record stonith_t =
  state :: stonith_state
  call_id :: "32 word"
  token :: "string option"
  stonith_op_callback_table :: "(int \<times> stonith_callback_client) list"
  notify_list :: "stonith_notify_client list"
  op_callback :: fnptr

text \<open>
  A request handed to \<^verbatim>\<open>crm_ipc_send\<close>: the message, whether the flags ask for a
  response, and the time in milliseconds to wait for it.  The world of the session
  holds the requests handed over so far, the content of the replies released with
  \<^verbatim>\<open>free_xml\<close>, the callback invocations \<open>(callback, call_id, rc, userdata)\<close> made so
  far, the timers of the main loop, whose data is the call id of their
  \<^verbatim>\<open>timer_rec_s\<close>, and the heap of the replies.

  A reply that the transport stores for the session is a new object on the heap.  Its
  address is its index in the list \<open>heap\<close>, which holds the content of an object that
  is live and \<open>None\<close> for one that has been released; addresses are not reused.  A
  pointer to a reply, an \<^verbatim>\<open>xmlNode *\<close>, is \<^verbatim>\<open>NULL\<close> (\<open>None\<close>) or an address.
\<close>

type_synonym xml_ptr = "nat option"

record ipc_request =
  req_msg :: xmlNode
  req_response :: bool
  req_ms_timeout :: int

record client_world =
  sent :: "ipc_request list"
  freed :: "xmlNode list"
  invoked :: "(fnptr \<times> int \<times> int \<times> nat) list"
  timers :: "int mainloop"
  heap :: "xmlNode option list"

text \<open>
  What the transport answers to one \<^verbatim>\<open>crm_ipc_send\<close>: its return value, the reply it
  stores, and what \<^verbatim>\<open>crm_ipc_connected\<close> says afterwards.
\<close>

record ipc_answer =
  ipc_rc :: int
  ipc_reply :: "xmlNode option"
  ipc_connected :: bool

definition crm_ipc_send :: "xmlNode \<Rightarrow> bool \<Rightarrow> int \<Rightarrow> client_world \<Rightarrow> client_world" where
  "crm_ipc_send msg response ms w =
     w\<lparr>sent := sent w @ [\<lparr>req_msg = msg, req_response = response, req_ms_timeout = ms\<rparr>]\<rparr>"

text \<open>
  The pointer that \<^verbatim>\<open>crm_ipc_send\<close> stores through its last argument: \<^verbatim>\<open>NULL\<close>, or
  the address of the reply, a new object.
\<close>

definition reply_stored :: "ipc_answer \<Rightarrow> client_world \<Rightarrow> xml_ptr \<times> client_world" where
  "reply_stored answer w =
     (case ipc_reply answer of
        None \<Rightarrow> (None, w)
      | Some n \<Rightarrow> (Some (length (heap w)), w\<lparr>heap := heap w @ [Some n]\<rparr>))"

text \<open>The object a pointer points to, if it is live.\<close>

definition xml_at :: "client_world \<Rightarrow> xml_ptr \<Rightarrow> xmlNode option" where
  "xml_at w x =
     (case x of
        None \<Rightarrow> None
      | Some p \<Rightarrow> if p < length (heap w) then heap w ! p else None)"

text \<open>
  \<^verbatim>\<open>free_xml\<close>.  It does nothing for \<^verbatim>\<open>NULL\<close> and releases a live object.  Called
  with the address of an object that is not live, it releases memory that was released
  before, and the behaviour of the C program is undefined from there on: the result
  is then that address, on the left.
\<close>

definition free_xml :: "xml_ptr \<Rightarrow> client_world \<Rightarrow> nat + client_world" where
  "free_xml x w =
     (case x of
        None \<Rightarrow> Inr w
      | Some p \<Rightarrow>
          (case xml_at w x of
             None \<Rightarrow> Inl p
           | Some n \<Rightarrow> Inr (w\<lparr>heap := (heap w)[p := None], freed := freed w @ [n]\<rparr>)))"

definition stonith_api_new :: stonith_t where
  "stonith_api_new =
     \<lparr>state = stonith_disconnected, call_id = 1, token = None,
      stonith_op_callback_table = [], notify_list = [], op_callback = 0\<rparr>"

subsection \<open>Sending a command\<close>

definition stonith_create_op ::
  "int \<Rightarrow> string option \<Rightarrow> string \<Rightarrow> xmlNode option \<Rightarrow> int \<Rightarrow> xmlNode option" where
  "stonith_create_op cid tok op data call_options =
     (case tok of
        None \<Rightarrow> None
      | Some t \<Rightarrow>
          (let m1 = create_xml_node ''stonith_command'';
               m2 = crm_xml_add m1 F_XML_TAGNAME (Some ''stonith_command'');
               m3 = crm_xml_add m2 F_TYPE (Some T_STONITH_NG);
               m4 = crm_xml_add m3 F_STONITH_CALLBACK_TOKEN (Some t);
               m5 = crm_xml_add m4 F_STONITH_OPERATION (Some op);
               m6 = crm_xml_add_int m5 F_STONITH_CALLID cid;
               m7 = crm_xml_add_int m6 F_STONITH_CALLOPTS call_options
           in Some (case data of None \<Rightarrow> m7 | Some d \<Rightarrow> add_message_xml m7 F_STONITH_CALLDATA d)))"

text \<open>
  The outcome of a call of \<^verbatim>\<open>stonith_send_command\<close>.  Either the call returns: with
  the returned code, the session, the caller's slot and the world.  The parameter
  \<^verbatim>\<open>output_data\<close> and the slot are \<open>None\<close> for a \<^verbatim>\<open>NULL\<close> pointer and otherwise hold
  the pointer in the caller's slot.  Or the call releases a reply a second time: with
  the address of the reply, and the session and the world as they are when that
  happens.
\<close>

datatype send_result =
    Returned (code: int) (session_after: stonith_t) (slot: "xml_ptr option")
      (world_after: client_world)
  | Double_free (address: nat) (session_after: stonith_t) (world_after: client_world)

text \<open>
  The world after the reply that the transport stored on top of the heap of \<open>w1\<close> has been
  released once.
\<close>

definition released :: "ipc_answer \<Rightarrow> client_world \<Rightarrow> client_world" where
  "released ans w1 =
     (case ipc_reply ans of
        None \<Rightarrow> w1
      | Some n \<Rightarrow> w1\<lparr>heap := heap w1 @ [None], freed := freed w1 @ [n]\<rparr>)"

text \<open>
  A statement \<^verbatim>\<open>free_xml(x);\<close> of \<^verbatim>\<open>stonith_send_command\<close>, followed by the rest
  of the function; and the part of the function after the label \<^verbatim>\<open>done\<close>.  The request
  \<^verbatim>\<open>op_msg\<close> is built and released within the call and is a value here.
\<close>

definition free_then ::
  "xml_ptr \<Rightarrow> stonith_t \<Rightarrow> client_world \<Rightarrow> (client_world \<Rightarrow> send_result) \<Rightarrow> send_result" where
  "free_then x st w rest =
     (case free_xml x w of
        Inl p \<Rightarrow> Double_free p st w
      | Inr w' \<Rightarrow> rest w')"

definition send_done ::
  "int \<Rightarrow> xml_ptr \<Rightarrow> ipc_answer \<Rightarrow> stonith_t \<Rightarrow> xml_ptr option \<Rightarrow> client_world \<Rightarrow> send_result" where
  "send_done r op_reply answer st out w =
     (let st' = (if \<not> ipc_connected answer then st\<lparr>state := stonith_disconnected\<rparr> else st)
      in free_then op_reply st' w (\<lambda>w'. Returned r st' out w'))"

definition stonith_send_command ::
  "stonith_t \<Rightarrow> string option \<Rightarrow> xmlNode option \<Rightarrow> xml_ptr option \<Rightarrow> int \<Rightarrow> int
     \<Rightarrow> ipc_answer \<Rightarrow> client_world \<Rightarrow> send_result" where
  "stonith_send_command stonith op data output_data call_options tmo answer w =
     (if state stonith = stonith_disconnected then Returned (- ENOTCONN) stonith output_data w
      else
        (let out = (case output_data of None \<Rightarrow> None | Some _ \<Rightarrow> Some None)
         in case op of
              None \<Rightarrow> Returned (- EINVAL) stonith out w
            | Some opname \<Rightarrow>
               (let response = (call_options AND st_opt_sync_call \<noteq> 0);
                    st1 = stonith\<lparr>call_id := call_id stonith + 1\<rparr>;
                    st2 = (if sint (call_id st1) < 1 then st1\<lparr>call_id := 1\<rparr> else st1)
                in case stonith_create_op (sint (call_id st2)) (token st2) opname data
                          call_options of
                     None \<Rightarrow> Returned (- EINVAL) st2 out w
                   | Some op_msg0 \<Rightarrow>
                      (let op_msg = crm_xml_add_int op_msg0 F_STONITH_TIMEOUT tmo;
                           w1 = crm_ipc_send op_msg response (c_int (1000 * (tmo + 60))) w;
                           (op_reply, w2) = reply_stored answer w1
                       in if ipc_rc answer < 0
                          then send_done (- ECOMM) op_reply answer st2 out w2
                          else if call_options AND st_opt_sync_call = 0
                          then (if sint (call_id st2) = 0 then Returned (- EPROTO) st2 out w2
                                else free_then op_reply st2 w2
                                       (\<lambda>w3. Returned (sint (call_id st2)) st2 out w3))
                          else
                            (let reply_id = snd (crm_element_value_int (xml_at w2 op_reply)
                                                   F_STONITH_CALLID (- 1))
                             in if reply_id = sint (call_id st2)
                                then (let (got, v) = crm_element_value_int (xml_at w2 op_reply)
                                                       F_STONITH_RC pcmk_ok;
                                          r = (if got \<noteq> 0 then - ENOMSG else v)
                                      in if call_options AND st_opt_discard_reply \<noteq> 0
                                            \<or> output_data = None
                                         then send_done r op_reply answer st2 out w2
                                         else send_done r None answer st2 (Some op_reply) w2)
                                else if reply_id \<le> 0
                                then free_then op_reply st2 w2
                                       (\<lambda>w3. send_done (- ENOMSG) op_reply answer st2 out w3)
                                else free_then op_reply st2 w2
                                       (\<lambda>w3. send_done (- ENOMSG) op_reply answer st2 out w3))))))"

text \<open>
  A run of \<^verbatim>\<open>stonith_send_command\<close> calls on one session, each with its arguments
  and the answer of the transport; and the call ids stamped on the requests that the
  run hands to the transport.  The run ends with the last call, or with the call that
  releases a reply a second time: what the program does after that is not defined.
\<close>

record command =
  cmd_op :: "string option"
  cmd_data :: "xmlNode option"
  cmd_output_data :: "xml_ptr option"
  cmd_options :: int
  cmd_timeout :: int
  cmd_answer :: ipc_answer

fun run_commands :: "stonith_t \<Rightarrow> client_world \<Rightarrow> command list \<Rightarrow> stonith_t \<times> client_world" where
  "run_commands st w [] = (st, w)"
| "run_commands st w (c # cs) =
     (case stonith_send_command st (cmd_op c) (cmd_data c) (cmd_output_data c)
             (cmd_options c) (cmd_timeout c) (cmd_answer c) w of
        Returned r st' out w' \<Rightarrow> run_commands st' w' cs
      | Double_free p st' w' \<Rightarrow> (st', w'))"

definition request_call_id :: "ipc_request \<Rightarrow> int" where
  "request_call_id q = snd (crm_element_value_int (Some (req_msg q)) F_STONITH_CALLID 0)"

definition INT_MAX :: int where "INT_MAX = 2147483647"

text \<open>The call id that follows \<open>a\<close> in the positive range of a C \<^verbatim>\<open>int\<close>.\<close>

definition next_call_id :: "int \<Rightarrow> int" where
  "next_call_id a = (if 0 \<le> a \<and> a < INT_MAX then a + 1 else 1)"

text \<open>The world before anything has happened, and a session that has signed on.\<close>

definition new_world :: client_world where
  "new_world = \<lparr>sent = [], freed = [], invoked = [],
                timers = \<lparr>clock = 0, sources = [], last_source = 0\<rparr>, heap = []\<rparr>"

definition connected_session :: stonith_t where
  "connected_session = stonith_api_new\<lparr>state := stonith_connected_command,
                                        token := Some ''088fb640''\<rparr>"

definition almost_wrapped_session :: stonith_t where
  "almost_wrapped_session = connected_session\<lparr>call_id := 2147483646\<rparr>"

definition async_fence :: command where
  "async_fence = \<lparr>cmd_op = Some ''st_fence'', cmd_data = None, cmd_output_data = None,
                   cmd_options = 0, cmd_timeout = 10,
                   cmd_answer = \<lparr>ipc_rc = 1, ipc_reply = None, ipc_connected = True\<rparr>\<rparr>"

text \<open>
  Answers of the transport: a send that succeeds on a channel that is closed right
  after it, a send that fails on a closed channel, and a reply that carries a call id.
\<close>

definition lost_after_send :: ipc_answer where
  "lost_after_send = \<lparr>ipc_rc = 1, ipc_reply = None, ipc_connected = False\<rparr>"

definition failed_send :: ipc_answer where
  "failed_send = \<lparr>ipc_rc = - ENOTCONN, ipc_reply = None, ipc_connected = False\<rparr>"

definition fence_reply :: "int \<Rightarrow> xmlNode" where
  "fence_reply cid = XmlNode ''st-reply'' [(''t'', ''stonith-ng'')]
                       [(''st_callid'', cid), (''st_rc'', 0)] []"

definition answer_with :: "xmlNode \<Rightarrow> ipc_answer" where
  "answer_with reply = \<lparr>ipc_rc = 1, ipc_reply = Some reply, ipc_connected = True\<rparr>"

text \<open>
  The request that the first command of the signed-on session hands to the transport,
  for an operation and call options, with a timeout of ten seconds.
\<close>

definition first_request :: "string \<Rightarrow> int \<Rightarrow> ipc_request" where
  "first_request opname opts =
     \<lparr>req_msg = XmlNode ''stonith_command''
                  [(''__name__'', ''stonith_command''), (''t'', ''stonith-ng''),
                   (''st_async_id'', ''088fb640''), (''st_op'', opname)]
                  [(''st_callid'', 2), (''st_callopt'', opts), (''st_timeout'', 10)] [],
      req_response = (opts AND st_opt_sync_call \<noteq> 0), req_ms_timeout = 70000\<rparr>"

subsection \<open>Callback registry\<close>











subsection \<open>Notification subscribers\<close>

text \<open>\<^verbatim>\<open>strcmp\<close>, up to the size of a result that is not zero.\<close>

fun strcmp :: "string \<Rightarrow> string \<Rightarrow> int" where
  "strcmp [] [] = 0"
| "strcmp [] (b # bs) = - 1"
| "strcmp (a # as) [] = 1"
| "strcmp (a # as) (b # bs) =
     (if a = b then strcmp as bs
      else if (of_char a :: nat) < of_char b then - 1 else 1)"

definition stonithlib_GCompareFunc :: "stonith_notify_client \<Rightarrow> stonith_notify_client \<Rightarrow> int" where
  "stonithlib_GCompareFunc a_client b_client =
     (case (event a_client, event b_client) of
        (Some ea, Some eb) \<Rightarrow>
          (let r = strcmp ea eb
           in if r = 0
              then (if notify a_client = 0 \<or> notify b_client = 0 then 0
                    else if notify a_client = notify b_client then 0
                    else if notify a_client < notify b_client then - 1
                    else 1)
              else r)
      | _ \<Rightarrow> 0)"

text \<open>\<^verbatim>\<open>g_list_find_custom\<close>: the first element that the function compares equal.\<close>

definition g_list_find_custom ::
  "'a list \<Rightarrow> 'a \<Rightarrow> ('a \<Rightarrow> 'a \<Rightarrow> int) \<Rightarrow> 'a option" where
  "g_list_find_custom xs d f = find (\<lambda>x. f x d = 0) xs"

text \<open>
  \<^verbatim>\<open>stonith_set_notification\<close>; the second argument from the end is the value that
  \<^verbatim>\<open>crm_ipc_send\<close> returns.
\<close>

definition stonith_set_notification ::
  "stonith_t \<Rightarrow> string option \<Rightarrow> int \<Rightarrow> int \<Rightarrow> client_world \<Rightarrow> int \<times> client_world" where
  "stonith_set_notification stonith cb enabled send_rc w =
     (let notify_msg = create_xml_node ''stonith_set_notification''
      in if state stonith \<noteq> stonith_disconnected
         then (let m1 = crm_xml_add notify_msg F_STONITH_OPERATION (Some T_STONITH_NOTIFY);
                   m2 = (if enabled \<noteq> 0 then crm_xml_add m1 F_STONITH_NOTIFY_ACTIVATE cb
                         else crm_xml_add m1 F_STONITH_NOTIFY_DEACTIVATE cb);
                   w1 = crm_ipc_send m2 True (- 1) w
               in (if send_rc < 0 then - ECOMM else pcmk_ok, w1))
         else (pcmk_ok, w))"

definition stonith_api_add_notification ::
  "stonith_t \<Rightarrow> string option \<Rightarrow> fnptr \<Rightarrow> int \<Rightarrow> client_world \<Rightarrow> int \<times> stonith_t \<times> client_world" where
  "stonith_api_add_notification stonith ev cb send_rc w =
     (let new_client = \<lparr>event = ev, notify = cb\<rparr>
      in case g_list_find_custom (notify_list stonith) new_client stonithlib_GCompareFunc of
           Some list_item \<Rightarrow> (- ENOTUNIQ, stonith, w)
         | None \<Rightarrow>
             (let st1 = stonith\<lparr>notify_list := notify_list stonith @ [new_client]\<rparr>;
                  (_, w1) = stonith_set_notification st1 ev 1 send_rc w
              in (pcmk_ok, st1, w1)))"



definition subscribed_session :: stonith_t where
  "subscribed_session =
     connected_session\<lparr>notify_list := [\<lparr>event = Some ''st_notify_fence'', notify = 7\<rparr>]\<rparr>"

section \<open>Properties\<close>

subsection \<open>Retry policy\<close>

lemma seventy_percent: "(real_of_int d < real_of_int t * 0.7) = (10 * d < 7 * t)"
proof -
  have "(real_of_int d < real_of_int t * 0.7) = (real_of_int (10 * d) < real_of_int (7 * t))"
    by (simp add: field_simps)
  also have "\<dots> = (10 * d < 7 * t)"
    by (rule of_int_less_iff)
  finally show ?thesis .
qed

text \<open>
  Claim C1.  Let \<open>T\<close> be the declared timeout (a C \<^verbatim>\<open>int\<close>), \<open>N\<close> the maximal number
  of tries, \<open>k\<close> the number of tries made, \<open>r\<close> the last result code and \<open>E\<close> the
  wall-clock time elapsed since the first attempt, in seconds: not negative (the clock
  has not been set back) and below \<open>2 ^ 31\<close> (it fits the \<^verbatim>\<open>int\<close> it is stored in).
  Then \<^verbatim>\<open>update_remaining_timeout\<close> answers \<^verbatim>\<open>TRUE\<close> exactly when \<open>k < N\<close>, \<open>r\<close> is
  not \<open>-ETIME\<close> and \<open>E < 0.7 * T\<close>; it then stores \<open>T - E\<close> as the remaining timeout,
  and stores \<open>0\<close> in every other case.  No other field of the action changes.
\<close>

theorem update_remaining_timeout_policy:
  assumes "initial_start_time a \<le> now" and "now - initial_start_time a < 2 ^ 31"
    and "timeout a < 2 ^ 31"
  shows "let E = now - initial_start_time a;
             T = timeout a;
             permitted = (tries a < max_retries a \<and> rc a \<noteq> - ETIME
                          \<and> real_of_int E < 0.7 * real_of_int T)
         in update_remaining_timeout now a =
              (a\<lparr>remaining_timeout := (if permitted then T - E else 0)\<rparr>, permitted)"
proof -
  define E where "E = now - initial_start_time a"
  have E0: "0 \<le> E" and E1: "E < 2 ^ 31" using assms by (simp_all add: E_def)
  have diff: "c_int E = E"
    using E0 E1 by (simp add: c_int_def)
  have sub: "c_int (timeout a - E) = timeout a - E \<and> timeout a - E \<noteq> 0"
    if "real_of_int E < real_of_int (timeout a) * 0.7"
  proof -
    from that have "10 * E < 7 * timeout a" by (simp only: seventy_percent)
    with E0 have "0 < timeout a - E" "timeout a - E \<le> timeout a" by arith+
    with assms(3) show ?thesis by (simp add: c_int_def)
  qed
  show ?thesis
    using sub
    by (auto simp: update_remaining_timeout_def Let_def E_def [symmetric] diff mult.commute)
qed

theorem update_remaining_timeout_policy_witness:
  "initial_start_time failed_action \<le> 1003
   \<and> 1003 - initial_start_time failed_action < 2 ^ 31
   \<and> timeout failed_action < 2 ^ 31
   \<and> update_remaining_timeout 1003 failed_action
       = (failed_action\<lparr>remaining_timeout := 7\<rparr>, True)"
  using update_remaining_timeout_policy [of failed_action 1003]
  by (simp add: failed_action_def ETIME_def)

subsection \<open>Classification of the result of an asynchronous action\<close>

lemma complete_action_completions:
  "completions (complete_action p a w) =
     completions w @ (if done_cb a \<noteq> 0 then [(done_cb a, p, rc a, output_text a, userdata a)] else [])"
  by (simp add: complete_action_def stonith__destroy_action_def
        stonith_action_clear_tracking_data_def remove_timers_def Let_def split_def)

lemma remove_timers_keeps:
  "done_cb (fst (remove_timers a w)) = done_cb a"
  "userdata (fst (remove_timers a w)) = userdata a"
  "fd_stdout (fst (remove_timers a w)) = fd_stdout a"
  "fd_stderr (fst (remove_timers a w)) = fd_stderr a"
  "last_timeout_signo (fst (remove_timers a w)) = last_timeout_signo a"
  "tries (fst (remove_timers a w)) = tries a"
  "max_retries (fst (remove_timers a w)) = max_retries a"
  "completions (snd (remove_timers a w)) = completions w"
  by (simp_all add: remove_timers_def Let_def split_def)

lemma async_done_rc_cong:
  "last_timeout_signo a = last_timeout_signo b \<Longrightarrow> error a = error b \<Longrightarrow>
     async_done_rc a signo exitcode = async_done_rc b signo exitcode"
  by (simp add: async_done_rc_def)

lemma async_done_reports:
  assumes "max_retries a \<le> tries a"
  shows "\<exists>w'. stonith_action_async_done env p signo exitcode a w = Some (None, w')
           \<and> completions w' =
                completions w @
                (if done_cb a \<noteq> 0
                 then [(done_cb a, p,
                        async_done_rc (a\<lparr>error := read_output (fd_stderr a) (pipe_stderr env)\<rparr>)
                          signo exitcode,
                        read_output (fd_stdout a) (pipe_stdout env), userdata a)]
                 else [])"
proof -
  obtain a1 w1 where r: "remove_timers a w = (a1, w1)"
    by (cases "remove_timers a w")
  have k: "done_cb a1 = done_cb a" "userdata a1 = userdata a" "fd_stdout a1 = fd_stdout a"
    "fd_stderr a1 = fd_stderr a" "last_timeout_signo a1 = last_timeout_signo a"
    "tries a1 = tries a" "max_retries a1 = max_retries a" "completions w1 = completions w"
    using remove_timers_keeps [of a w] by (simp_all add: r)
  have c: "async_done_rc
             (a1\<lparr>output_text := read_output (fd_stdout a) (pipe_stdout env),
                  error := read_output (fd_stderr a) (pipe_stderr env)\<rparr>) signo exitcode
           = async_done_rc (a\<lparr>error := read_output (fd_stderr a) (pipe_stderr env)\<rparr>)
               signo exitcode"
    by (rule async_done_rc_cong) (simp_all add: k)
  show ?thesis
    using assms
    by (simp add: stonith_action_async_done_def r Let_def k c update_remaining_timeout_def
          complete_action_completions)
qed

text \<open>
  Claim C2, as amended.  Let the exit of the child of an asynchronous action be
  handled, with an exit code that is not negative, and let the error text be what
  \<^verbatim>\<open>read_output\<close> delivers from the error pipe.  The result code is, in this order of
  priority: \<open>-ETIME\<close> if one of the two timers has fired; \<open>-ECONNABORTED\<close> if
  another signal ended the child; \<open>-ENODATA\<close> if the exit code is not zero and there
  is no error text; \<open>-ETIMEDOUT\<close> if the exit code is not zero and the error text
  contains \<^verbatim>\<open>imed out\<close>; \<open>-EOPNOTSUPP\<close> if the exit code is not zero and the error
  text contains \<^verbatim>\<open>Unrecognised action\<close>; \<open>-pcmk_err_generic\<close> for any other exit
  code that is not zero; and \<open>pcmk_ok\<close> for exit code zero, whatever the error text.
  When the tries are used up, \<^verbatim>\<open>stonith_action_async_done\<close> ends by handing this code
  to the completion callback.
\<close>

theorem async_done_rc_priority:
  assumes "0 \<le> exitcode"
  shows "let a' = a\<lparr>error := read_output (fd_stderr a) (pipe_stderr env)\<rparr>;
             r = (if last_timeout_signo a' \<noteq> 0 then - ETIME
                  else if signo \<noteq> 0 then - ECONNABORTED
                  else if exitcode \<noteq> 0 \<and> error a' = None then - ENODATA
                  else if exitcode \<noteq> 0 \<and> (\<exists>e. error a' = Some e \<and> strstr e ''imed out'')
                  then - ETIMEDOUT
                  else if exitcode \<noteq> 0
                          \<and> (\<exists>e. error a' = Some e \<and> strstr e ''Unrecognised action'')
                  then - EOPNOTSUPP
                  else if exitcode \<noteq> 0 then - pcmk_err_generic
                  else pcmk_ok)
         in async_done_rc a' signo exitcode = r
            \<and> (max_retries a \<le> tries a \<longrightarrow>
                 (\<exists>w'. stonith_action_async_done env p signo exitcode a w = Some (None, w')
                    \<and> completions w' =
                         completions w @
                         (if done_cb a \<noteq> 0
                          then [(done_cb a, p, r, read_output (fd_stdout a) (pipe_stdout env),
                                 userdata a)]
                          else [])))"
proof -
  define a' where "a' = a\<lparr>error := read_output (fd_stderr a) (pipe_stderr env)\<rparr>"
  define r where "r = (if last_timeout_signo a' \<noteq> 0 then - ETIME
                  else if signo \<noteq> 0 then - ECONNABORTED
                  else if exitcode \<noteq> 0 \<and> error a' = None then - ENODATA
                  else if exitcode \<noteq> 0 \<and> (\<exists>e. error a' = Some e \<and> strstr e ''imed out'')
                  then - ETIMEDOUT
                  else if exitcode \<noteq> 0
                          \<and> (\<exists>e. error a' = Some e \<and> strstr e ''Unrecognised action'')
                  then - EOPNOTSUPP
                  else if exitcode \<noteq> 0 then - pcmk_err_generic
                  else pcmk_ok)"
  have c: "async_done_rc a' signo exitcode = r"
    using assms by (auto simp: async_done_rc_def r_def pcmk_ok_def split: option.splits)
  have "\<exists>w'. stonith_action_async_done env p signo exitcode a w = Some (None, w')
           \<and> completions w' =
                completions w @
                (if done_cb a \<noteq> 0
                 then [(done_cb a, p, r, read_output (fd_stdout a) (pipe_stdout env), userdata a)]
                 else [])"
    if "max_retries a \<le> tries a"
    using async_done_reports [OF that, of env p signo exitcode w]
    unfolding a'_def [symmetric] c .
  with c show ?thesis
    unfolding Let_def a'_def [symmetric] r_def [symmetric] by blast
qed

theorem async_done_rc_priority_witness:
  "(0::int) \<le> 1
   \<and> max_retries (running_action\<lparr>tries := 2\<rparr>) \<le> tries (running_action\<lparr>tries := 2\<rparr>)
   \<and> read_output (fd_stderr (running_action\<lparr>tries := 2\<rparr>)) (pipe_stderr warned_exit)
       = Some ''login timed out, retrying''
   \<and> (\<exists>w'. stonith_action_async_done warned_exit 4242 0 1 (running_action\<lparr>tries := 2\<rparr>)
               running_world = Some (None, w')
          \<and> completions w' = [(7, 4242, - ETIMEDOUT, None, 0)])"
proof -
  have h: "(0::int) \<le> 1"
    "max_retries (running_action\<lparr>tries := 2\<rparr>) \<le> tries (running_action\<lparr>tries := 2\<rparr>)"
    by (simp_all add: running_action_def new_action_def)
  have e: "read_output (fd_stderr (running_action\<lparr>tries := 2\<rparr>)) (pipe_stderr warned_exit)
             = Some ''login timed out, retrying''"
    by (simp add: read_output_def running_action_def new_action_def warned_exit_def
          good_spawn_def)
  from async_done_rc_priority
         [OF h(1), of "running_action\<lparr>tries := 2\<rparr>" warned_exit 0 4242 running_world]
  have "\<exists>w'. stonith_action_async_done warned_exit 4242 0 1 (running_action\<lparr>tries := 2\<rparr>)
               running_world = Some (None, w')
          \<and> completions w' = [(7, 4242, - ETIMEDOUT, None, 0)]"
    unfolding Let_def e using h(2)
    by (simp add: running_action_def new_action_def running_world_def read_output_def
          warned_exit_def good_spawn_def)
  with h e show ?thesis by blast
qed

text \<open>
  The claim as stated lets the error text decide before the exit code is known to be
  nonzero.  An agent that exits with code zero after a warning that contains
  \<^verbatim>\<open>timed out\<close> is not classified as timed out: its completion callback receives
  \<open>pcmk_ok\<close>.
\<close>

theorem async_done_zero_exit_counterexample:
  "last_timeout_signo running_action = 0
   \<and> read_output (fd_stderr running_action) (pipe_stderr warned_exit)
       = Some ''login timed out, retrying''
   \<and> strstr ''login timed out, retrying'' ''imed out''
   \<and> stonith_action_async_done warned_exit 4242 0 0 running_action running_world
       = Some (None, running_world\<lparr>loop := (loop running_world)\<lparr>sources := []\<rparr>,
                                    completions := [(7, 4242, pcmk_ok, None, 0)]\<rparr>)
   \<and> pcmk_ok \<noteq> - ETIMEDOUT"
  by (simp add: stonith_action_async_done_def remove_timers_def running_action_def
        new_action_def running_world_def warned_exit_def good_spawn_def read_output_def
        async_done_rc_def g_source_remove_def complete_action_def stonith__destroy_action_def
        stonith_action_clear_tracking_data_def pcmk_ok_def ETIMEDOUT_def Let_def)

subsection \<open>Timeout escalation of an asynchronous action\<close>

lemma guint_id: "0 \<le> x \<Longrightarrow> x < 2 ^ 32 \<Longrightarrow> guint x = nat x"
  by (simp add: guint_def)

lemma remove_timers_kills: "kills (snd (remove_timers a w)) = kills w"
  by (simp add: remove_timers_def Let_def split_def)

lemma remove_timers_sources:
  "sources (loop (snd (remove_timers a w))) =
     filter (\<lambda>s. (timer_sigterm a > 0 \<longrightarrow> src_id s \<noteq> timer_sigterm a)
                \<and> (timer_sigkill a > 0 \<longrightarrow> src_id s \<noteq> timer_sigkill a)) (sources (loop w))"
  by (auto simp: remove_timers_def Let_def split_def g_source_remove_def intro: filter_cong)

lemma remove_timers_last: "last_source (loop (snd (remove_timers a w))) = last_source (loop w)"
  by (simp add: remove_timers_def Let_def split_def g_source_remove_def)

lemma remove_timers_fields:
  "timer_sigterm (fst (remove_timers a w)) = 0"
  "timer_sigkill (fst (remove_timers a w)) = 0"
  "async (fst (remove_timers a w)) = async a"
  "pid (fst (remove_timers a w)) = pid a"
  by (simp_all add: remove_timers_def Let_def split_def)


lemma clear_tracking_fields:
  "async (fst (stonith_action_clear_tracking_data a w)) = async a"
  "args (fst (stonith_action_clear_tracking_data a w)) = args a"
  "agent (fst (stonith_action_clear_tracking_data a w)) = agent a"
  "remaining_timeout (fst (stonith_action_clear_tracking_data a w)) = remaining_timeout a"
  "timer_sigterm (fst (stonith_action_clear_tracking_data a w)) = 0"
  "timer_sigkill (fst (stonith_action_clear_tracking_data a w)) = 0"
  by (simp_all add: stonith_action_clear_tracking_data_def remove_timers_def Let_def split_def)

lemma clear_tracking_world:
  "kills (snd (stonith_action_clear_tracking_data a w)) = kills w"
  "last_source (loop (snd (stonith_action_clear_tracking_data a w))) = last_source (loop w)"
  "clock (loop (snd (stonith_action_clear_tracking_data a w))) = clock (loop w)"
  "sources (loop (snd (stonith_action_clear_tracking_data a w))) =
     filter (\<lambda>s. (timer_sigterm a > 0 \<longrightarrow> src_id s \<noteq> timer_sigterm a)
                \<and> (timer_sigkill a > 0 \<longrightarrow> src_id s \<noteq> timer_sigkill a)) (sources (loop w))"
  by (simp_all add: stonith_action_clear_tracking_data_def split_def Let_def remove_timers_kills
        remove_timers_last remove_timers_sources)
     (simp add: remove_timers_def Let_def split_def g_source_remove_def)

lemma execute_async_arms:
  assumes "async a \<noteq> 0" "args a = Some blob" "agent a = Some ag"
    and R: "0 < remaining_timeout a" "remaining_timeout a \<le> 2147478"
    and "spawn env = Forked p rfd efd (int (length blob)) ret"
  shows "\<exists>a' w'. internal_stonith_action_execute env a w = Some (0, a', w')
           \<and> pid a' = p \<and> async a' = async a
           \<and> timer_sigterm a' = Suc (last_source (loop w))
           \<and> timer_sigkill a' = Suc (Suc (last_source (loop w)))
           \<and> last_source (loop w') = Suc (Suc (last_source (loop w)))
           \<and> kills w' = kills w
           \<and> clock (loop w') = clock (loop w)
           \<and> sources (loop w') = sources (loop (snd (stonith_action_clear_tracking_data a w))) @
                [\<lparr>src_id = Suc (last_source (loop w)),
                  src_interval = nat (1000 * remaining_timeout a),
                  src_due = clock (loop w) + nat (1000 * remaining_timeout a),
                  src_cb = St_child_term\<rparr>,
                 \<lparr>src_id = Suc (Suc (last_source (loop w))),
                  src_interval = nat (1000 * remaining_timeout a) + 5000,
                  src_due = clock (loop w) + nat (1000 * remaining_timeout a) + 5000,
                  src_cb = St_child_kill\<rparr>]"
proof -
  have g1: "guint (1000 * remaining_timeout a) = nat (1000 * remaining_timeout a)"
    using R by (intro guint_id) simp_all
  have g2: "guint (1000 * remaining_timeout a + 5000) = nat (1000 * remaining_timeout a) + 5000"
  proof -
    have "guint (1000 * remaining_timeout a + 5000) = nat (1000 * remaining_timeout a + 5000)"
      using R by (intro guint_id) simp_all
    also have "\<dots> = nat (1000 * remaining_timeout a) + 5000"
      using R by (simp add: nat_add_distrib)
    finally show ?thesis .
  qed
  obtain a1 w1 where c: "stonith_action_clear_tracking_data a w = (a1, w1)"
    by (cases "stonith_action_clear_tracking_data a w")
  have f: "async a1 = async a" "args a1 = args a" "agent a1 = agent a"
    "remaining_timeout a1 = remaining_timeout a"
    using clear_tracking_fields [of a w] by (simp_all add: c)
  have wd: "kills w1 = kills w" "last_source (loop w1) = last_source (loop w)"
    "clock (loop w1) = clock (loop w)"
    using clear_tracking_world(1-3) [of a w] by (simp_all add: c)
  show ?thesis
    using assms(1-3,6) R
    by (simp add: internal_stonith_action_execute_def c f wd g1 g2 Let_def g_timeout_add_def)
qed


lemma run_until_two_timers:
  assumes src: "sources (loop w) =
      [\<lparr>src_id = i1, src_interval = n1, src_due = d1, src_cb = St_child_term\<rparr>,
       \<lparr>src_id = i2, src_interval = n2, src_due = d2, src_cb = St_child_kill\<rparr>]"
    and ne: "i1 \<noteq> i2" and lt: "d1 < d2"
  shows "kills (snd (mainloop_run_until t (a, w))) =
           kills w @ (if t < d1 then []
                      else if t < d2 then [(- pid a, SIGTERM)]
                      else [(- pid a, SIGTERM), (- pid a, SIGKILL)])"
  using ne lt
  by (simp add: mainloop_run_until_def src dispatch_source_def st_child_term_def
        st_child_kill_def g_source_remove_def Let_def)

lemma execute_async_total:
  assumes "async a \<noteq> 0"
  shows "\<exists>r a' w'. internal_stonith_action_execute env a w = Some (r, a', w')
           \<and> kills w' = kills w
           \<and> (\<forall>s \<in> set (sources (loop w')).
                 s \<in> set (sources (loop w))
                   \<and> (0 < timer_sigterm a \<longrightarrow> src_id s \<noteq> timer_sigterm a)
                   \<and> (0 < timer_sigkill a \<longrightarrow> src_id s \<noteq> timer_sigkill a)
                 \<or> last_source (loop w) < src_id s)"
proof -
  obtain a1 w1 where c: "stonith_action_clear_tracking_data a w = (a1, w1)"
    by (cases "stonith_action_clear_tracking_data a w")
  have f: "async a1 \<noteq> 0"
    using clear_tracking_fields(1) [of a w] assms by (simp add: c)
  have wd: "kills w1 = kills w" "last_source (loop w1) = last_source (loop w)"
    using clear_tracking_world(1,2) [of a w] by (simp_all add: c)
  have "sources (loop w1) =
     filter (\<lambda>s. (timer_sigterm a > 0 \<longrightarrow> src_id s \<noteq> timer_sigterm a)
                \<and> (timer_sigkill a > 0 \<longrightarrow> src_id s \<noteq> timer_sigkill a)) (sources (loop w))"
    using clear_tracking_world(4) [of a w] by (simp add: c)
  then have s1: "\<forall>s \<in> set (sources (loop w1)).
                 s \<in> set (sources (loop w)) \<and> (timer_sigterm a > 0 \<longrightarrow> src_id s \<noteq> timer_sigterm a)
                \<and> (timer_sigkill a > 0 \<longrightarrow> src_id s \<noteq> timer_sigkill a)"
    by simp
  show ?thesis
    using f s1
    by (auto simp: internal_stonith_action_execute_def c wd Let_def g_timeout_add_def
        split: option.splits spawn_outcome.splits)
qed


lemma complete_action_world:
  "kills (complete_action p a w) = kills w"
  "set (sources (loop (complete_action p a w))) \<subseteq> set (sources (loop w))"
  by (auto simp: complete_action_def stonith__destroy_action_def clear_tracking_world)

lemma update_remaining_timeout_fields:
  "async (fst (update_remaining_timeout now a)) = async a"
  "timer_sigterm (fst (update_remaining_timeout now a)) = timer_sigterm a"
  "timer_sigkill (fst (update_remaining_timeout now a)) = timer_sigkill a"
  by (simp_all add: update_remaining_timeout_def Let_def)

lemma async_done_cancels:
  assumes as: "async a \<noteq> 0"
    and t1: "0 < timer_sigterm a" "timer_sigterm a \<le> last_source (loop w)"
    and t2: "0 < timer_sigkill a" "timer_sigkill a \<le> last_source (loop w)"
  shows "\<exists>r w'. stonith_action_async_done env p signo exitcode a w = Some (r, w')
           \<and> kills w' = kills w
           \<and> (\<forall>s \<in> set (sources (loop w')).
                  src_id s \<noteq> timer_sigterm a \<and> src_id s \<noteq> timer_sigkill a)"
proof -
  obtain a1 w1 where r: "remove_timers a w = (a1, w1)"
    by (cases "remove_timers a w")
  have f1: "async a1 = async a" "timer_sigterm a1 = 0" "timer_sigkill a1 = 0"
    using remove_timers_fields [of a w] by (simp_all add: r)
  have k1: "kills w1 = kills w" and l1: "last_source (loop w1) = last_source (loop w)"
    using remove_timers_kills [of a w] remove_timers_last [of a w] by (simp_all add: r)
  have s1: "\<forall>s \<in> set (sources (loop w1)).
              src_id s \<noteq> timer_sigterm a \<and> src_id s \<noteq> timer_sigkill a"
    using remove_timers_sources [of a w] t1 t2 by (simp add: r)
  define a4 where "a4 = a1\<lparr>output_text := read_output (fd_stdout a1) (pipe_stdout env),
      error := read_output (fd_stderr a1) (pipe_stderr env),
      rc := async_done_rc (a1\<lparr>output_text := read_output (fd_stdout a1) (pipe_stdout env),
               error := read_output (fd_stderr a1) (pipe_stderr env)\<rparr>) signo exitcode\<rparr>"
  obtain a5 retry where u: "update_remaining_timeout (wall_clock env) a4 = (a5, retry)"
    by (cases "update_remaining_timeout (wall_clock env) a4")
  have f5: "async a5 \<noteq> 0" "timer_sigterm a5 = 0" "timer_sigkill a5 = 0"
    using update_remaining_timeout_fields [of "wall_clock env" a4] as f1
    unfolding u fst_conv by (simp_all add: a4_def)
  obtain r6 a6 w6 where e: "internal_stonith_action_execute env a5 w1 = Some (r6, a6, w6)"
    and k6: "kills w6 = kills w1"
    and s6: "\<forall>s \<in> set (sources (loop w6)).
                 s \<in> set (sources (loop w1)) \<or> last_source (loop w1) < src_id s"
    using execute_async_total [OF f5(1), of env w1] by blast
  have s6': "\<forall>s \<in> set (sources (loop w6)).
              src_id s \<noteq> timer_sigterm a \<and> src_id s \<noteq> timer_sigkill a"
    using s6 s1 t1 t2 l1 by fastforce
  have sub: "s \<in> set (sources (loop (complete_action p a' w'))) \<Longrightarrow> s \<in> set (sources (loop w'))"
    for s a' w'
    using complete_action_world(2) [of p a' w'] by blast
  show ?thesis
    using s1 s6' k1 k6
    by (auto simp: stonith_action_async_done_def r Let_def a4_def [symmetric] u e
          complete_action_world(1) dest!: sub)
qed

text \<open>
  Claim C7.  Let an asynchronous action with remaining timeout \<open>R > 0\<close> seconds be
  started: the child is spawned and has taken the whole argument block, no other timer
  is pending, and \<open>1000 * (R + 5)\<close> is within the range of a C \<^verbatim>\<open>int\<close>.  Then two
  timers are pending: \<^verbatim>\<open>st_child_term\<close>, due after \<open>1000 * R\<close> milliseconds, and
  \<^verbatim>\<open>st_child_kill\<close>, due \<open>5000\<close> milliseconds later.  If the main loop runs on, no
  signal is sent before the first is due, \<^verbatim>\<open>SIGTERM\<close> goes to the process group of
  the child when it is due, and \<^verbatim>\<open>SIGKILL\<close> follows when the second is due.  If
  instead the exit of the child is handled first, \<^verbatim>\<open>stonith_action_async_done\<close>
  returns with both timers removed and no signal sent.
\<close>

theorem async_timeout_escalation:
  assumes "async a \<noteq> 0" "args a = Some blob" "agent a = Some ag"
    and "0 < remaining_timeout a" "remaining_timeout a \<le> 2147478"
    and "spawn env = Forked p rfd efd (int (length blob)) ret"
    and "sources (loop w) = []"
  shows "\<exists>a' w'. internal_stonith_action_execute env a w = Some (0, a', w')
           \<and> sources (loop w') =
                [\<lparr>src_id = timer_sigterm a',
                  src_interval = nat (1000 * remaining_timeout a),
                  src_due = clock (loop w) + nat (1000 * remaining_timeout a),
                  src_cb = St_child_term\<rparr>,
                 \<lparr>src_id = timer_sigkill a',
                  src_interval = nat (1000 * remaining_timeout a) + 5000,
                  src_due = clock (loop w) + nat (1000 * remaining_timeout a) + 5000,
                  src_cb = St_child_kill\<rparr>]
           \<and> (\<forall>t. kills (snd (mainloop_run_until t (a', w'))) =
                  kills w @
                  (if t < clock (loop w) + nat (1000 * remaining_timeout a) then []
                   else if t < clock (loop w) + nat (1000 * remaining_timeout a) + 5000
                   then [(- p, SIGTERM)]
                   else [(- p, SIGTERM), (- p, SIGKILL)]))
           \<and> (\<forall>env' p' signo exitcode.
                 \<exists>r w''. stonith_action_async_done env' p' signo exitcode a' w' = Some (r, w'')
                   \<and> kills w'' = kills w
                   \<and> (\<forall>s \<in> set (sources (loop w'')).
                          src_id s \<noteq> timer_sigterm a' \<and> src_id s \<noteq> timer_sigkill a'))"
proof -
  from execute_async_arms [OF assms(1-6), of w]
  obtain a' w' where ex: "internal_stonith_action_execute env a w = Some (0, a', w')"
    and f: "pid a' = p" "async a' = async a"
      "timer_sigterm a' = Suc (last_source (loop w))"
      "timer_sigkill a' = Suc (Suc (last_source (loop w)))"
      "last_source (loop w') = Suc (Suc (last_source (loop w)))"
      "kills w' = kills w"
    and src: "sources (loop w') =
                sources (loop (snd (stonith_action_clear_tracking_data a w))) @
                [\<lparr>src_id = Suc (last_source (loop w)),
                  src_interval = nat (1000 * remaining_timeout a),
                  src_due = clock (loop w) + nat (1000 * remaining_timeout a),
                  src_cb = St_child_term\<rparr>,
                 \<lparr>src_id = Suc (Suc (last_source (loop w))),
                  src_interval = nat (1000 * remaining_timeout a) + 5000,
                  src_due = clock (loop w) + nat (1000 * remaining_timeout a) + 5000,
                  src_cb = St_child_kill\<rparr>]"
    by blast
  have src': "sources (loop w') =
                [\<lparr>src_id = timer_sigterm a',
                  src_interval = nat (1000 * remaining_timeout a),
                  src_due = clock (loop w) + nat (1000 * remaining_timeout a),
                  src_cb = St_child_term\<rparr>,
                 \<lparr>src_id = timer_sigkill a',
                  src_interval = nat (1000 * remaining_timeout a) + 5000,
                  src_due = clock (loop w) + nat (1000 * remaining_timeout a) + 5000,
                  src_cb = St_child_kill\<rparr>]"
    using src by (simp add: clear_tracking_world(4) assms(7) f)
  have run: "kills (snd (mainloop_run_until t (a', w'))) =
                  kills w @
                  (if t < clock (loop w) + nat (1000 * remaining_timeout a) then []
                   else if t < clock (loop w) + nat (1000 * remaining_timeout a) + 5000
                   then [(- p, SIGTERM)]
                   else [(- p, SIGTERM), (- p, SIGKILL)])" for t
    using run_until_two_timers [OF src', of t a'] by (simp add: f)
  have fin: "\<exists>r w''. stonith_action_async_done env' p' signo exitcode a' w' = Some (r, w'')
                   \<and> kills w'' = kills w
                   \<and> (\<forall>s \<in> set (sources (loop w'')).
                          src_id s \<noteq> timer_sigterm a' \<and> src_id s \<noteq> timer_sigkill a')"
    for env' p' signo exitcode
    using async_done_cancels [of a' w' env' p' signo exitcode] assms(1) by (simp add: f)
  from ex src' run fin show ?thesis by blast
qed

theorem async_timeout_escalation_witness:
  "async new_action \<noteq> 0 \<and> 0 < remaining_timeout new_action
   \<and> remaining_timeout new_action \<le> 2147478
   \<and> spawn good_spawn = Forked 4242 5 6 (int (length ''action=reboot\<newline>'')) 14
   \<and> sources (loop idle_world) = []
   \<and> (\<exists>a' w'. internal_stonith_action_execute good_spawn new_action idle_world = Some (0, a', w')
          \<and> kills (snd (mainloop_run_until 9999 (a', w'))) = []
          \<and> kills (snd (mainloop_run_until 10000 (a', w'))) = [(- 4242, SIGTERM)]
          \<and> kills (snd (mainloop_run_until 15000 (a', w'))) = [(- 4242, SIGTERM), (- 4242, SIGKILL)])"
proof -
  have h: "async new_action \<noteq> 0" "args new_action = Some ''action=reboot\<newline>''"
    "agent new_action = Some ''fence_ipmilan''"
    "0 < remaining_timeout new_action" "remaining_timeout new_action \<le> 2147478"
    "spawn good_spawn = Forked 4242 5 6 (int (length ''action=reboot\<newline>'')) 14"
    "sources (loop idle_world) = []"
    by (simp_all add: new_action_def good_spawn_def idle_world_def)
  from async_timeout_escalation [OF h]
  obtain a' w' where
    ex: "internal_stonith_action_execute good_spawn new_action idle_world = Some (0, a', w')"
    and run: "\<forall>t. kills (snd (mainloop_run_until t (a', w'))) =
                  kills idle_world @
                  (if t < clock (loop idle_world) + nat (1000 * remaining_timeout new_action)
                   then []
                   else if t < clock (loop idle_world)
                                 + nat (1000 * remaining_timeout new_action) + 5000
                   then [(- 4242, SIGTERM)]
                   else [(- 4242, SIGTERM), (- 4242, SIGKILL)])"
    by blast
  have k: "kills idle_world = []" "clock (loop idle_world) = 0"
    "remaining_timeout new_action = 10"
    by (simp_all add: idle_world_def new_action_def)
  have "kills (snd (mainloop_run_until 9999 (a', w'))) = []"
    "kills (snd (mainloop_run_until 10000 (a', w'))) = [(- 4242, SIGTERM)]"
    "kills (snd (mainloop_run_until 15000 (a', w'))) = [(- 4242, SIGTERM), (- 4242, SIGKILL)]"
    using run by (simp_all add: k)
  with ex h show ?thesis by blast
qed

subsection \<open>Call ids\<close>

lemma sint_succ:
  fixes c :: "32 word"
  shows "sint (c + 1) = (if sint c = 2147483647 then - 2147483648 else sint c + 1)"
proof -
  have r: "- 2147483648 \<le> sint c" "sint c < 2147483648"
    using sint_ge [of c] sint_lt [of c] by simp_all
  have e: "sint (c + 1) = signed_take_bit 31 (sint c + 1)"
    by (simp add: sint_word_add)
  show ?thesis
  proof (cases "sint c = 2147483647")
    case True
    then show ?thesis by (simp add: e)
  next
    case False
    with r have "- (2 ^ 31) \<le> sint c + 1" "sint c + 1 < 2 ^ 31" by simp_all
    then have "signed_take_bit 31 (sint c + 1) = sint c + 1"
      by (rule signed_take_bit_int_eq_self)
    with False show ?thesis by (simp add: e)
  qed
qed

lemma alloc_call_id:
  fixes c :: "32 word"
  shows "sint (if sint (c + 1) < 1 then 1 else c + 1) = next_call_id (sint c)"
  using sint_ge [of c] sint_lt [of c] by (auto simp: sint_succ next_call_id_def INT_MAX_def)


lemma map_of_filter_other:
  "map_of (filter (\<lambda>kv. fst kv \<noteq> k) al) k' = (if k' = k then None else map_of al k')"
  by (induction al) auto

lemma map_of_set_attr: "map_of (set_attr k v al) k' = (if k' = k then Some v else map_of al k')"
  by (simp add: set_attr_def map_add_def map_of_filter_other split: option.splits)

lemma create_op_call_id:
  "stonith_create_op cid tok op data opts = Some m \<Longrightarrow>
     request_call_id \<lparr>req_msg = crm_xml_add_int m F_STONITH_TIMEOUT tmo, req_response = b,
                      req_ms_timeout = ms\<rparr> = cid"
  by (auto simp: stonith_create_op_def request_call_id_def crm_element_value_int_def
        crm_xml_add_int_def crm_xml_add_def add_message_xml_def create_xml_node_def
        map_of_set_attr Let_def F_STONITH_TIMEOUT_def F_STONITH_CALLID_def F_STONITH_CALLOPTS_def
      split: option.splits)

lemma create_op_Some: "stonith_create_op cid (Some t) op data opts \<noteq> None"
  by (simp add: stonith_create_op_def Let_def)

lemma reply_stored_sent: "sent (snd (reply_stored ans w)) = sent w"
  by (simp add: reply_stored_def split: option.splits)

lemma free_then_cases:
  assumes "\<And>w'. P (rest w')" and "\<And>p. P (Double_free p st w)"
  shows "P (free_then x st w rest)"
  using assms by (simp add: free_then_def split: sum.splits)

lemma free_xml_sent: "free_xml x w = Inr w' \<Longrightarrow> sent w' = sent w"
  by (auto simp: free_xml_def split: option.splits)

lemma free_then_sent:
  assumes "\<And>w'. sent (world_after (rest w')) = sent w'"
  shows "sent (world_after (free_then x st w rest)) = sent w"
proof (cases "free_xml x w")
  case (Inl p)
  then show ?thesis by (simp add: free_then_def)
next
  case (Inr w')
  with free_xml_sent [OF Inr] assms [of w'] show ?thesis by (simp add: free_then_def)
qed

lemma free_then_session:
  assumes "\<And>w'. token (session_after (rest w')) = token st"
  shows "token (session_after (free_then x st w rest)) = token st"
  using assms by (simp add: free_then_def split: sum.splits)

lemma free_then_call_id:
  assumes "\<And>w'. call_id (session_after (rest w')) = call_id st"
  shows "call_id (session_after (free_then x st w rest)) = call_id st"
  using assms by (simp add: free_then_def split: sum.splits)

lemma free_then_state:
  assumes "\<And>w'. state (session_after (rest w')) = state st"
  shows "state (session_after (free_then x st w rest)) = state st"
  using assms by (simp add: free_then_def split: sum.splits)

lemma send_done_after:
  "call_id (session_after (send_done r x ans st out w)) = call_id st"
  "token (session_after (send_done r x ans st out w)) = token st"
  "state (session_after (send_done r x ans st out w)) =
     (if ipc_connected ans then state st else stonith_disconnected)"
  "sent (world_after (send_done r x ans st out w)) = sent w"
  by (simp_all add: send_done_def Let_def free_then_session free_then_call_id free_then_state
        free_then_sent)


text \<open>
  The calls that get as far as the transport: the session is connected and signed on,
  and an operation is named.  The new call id, the request, the pointer to the reply
  with the world after the send, and the rest of the function.
\<close>

lemma send_command_sends:
  assumes "state st \<noteq> stonith_disconnected" and "token st = Some t"
  obtains c2 :: "32 word" and q op_reply w2 where
    "sint c2 = next_call_id (sint (call_id st))"
    "request_call_id q = sint c2"
    "reply_stored ans (w\<lparr>sent := sent w @ [q]\<rparr>) = (op_reply, w2)"
    "stonith_send_command st (Some opname) data od opts tmo ans w =
       (let st2 = st\<lparr>call_id := c2\<rparr>;
            out = (case od of None \<Rightarrow> None | Some _ \<Rightarrow> Some None)
        in if ipc_rc ans < 0
           then send_done (- ECOMM) op_reply ans st2 out w2
           else if opts AND st_opt_sync_call = 0
           then (if sint c2 = 0 then Returned (- EPROTO) st2 out w2
                 else free_then op_reply st2 w2 (\<lambda>w3. Returned (sint c2) st2 out w3))
           else
             (let reply_id = snd (crm_element_value_int (xml_at w2 op_reply)
                                    F_STONITH_CALLID (- 1))
              in if reply_id = sint c2
                 then (let (got, v) = crm_element_value_int (xml_at w2 op_reply)
                                        F_STONITH_RC pcmk_ok;
                           r = (if got \<noteq> 0 then - ENOMSG else v)
                       in if opts AND st_opt_discard_reply \<noteq> 0 \<or> od = None
                          then send_done r op_reply ans st2 out w2
                          else send_done r None ans st2 (Some op_reply) w2)
                 else free_then op_reply st2 w2
                        (\<lambda>w3. send_done (- ENOMSG) op_reply ans st2 out w3)))"
proof -
  define c2 :: "32 word" where "c2 = (if sint (call_id st + 1) < 1 then 1 else call_id st + 1)"
  have c2: "sint c2 = next_call_id (sint (call_id st))"
    unfolding c2_def by (rule alloc_call_id)
  have alloc_let: "(let st1 = st\<lparr>call_id := call_id st + 1\<rparr>;
                        st2 = (if sint (call_id st1) < 1 then st1\<lparr>call_id := 1\<rparr> else st1)
                    in f st2) = f (st\<lparr>call_id := c2\<rparr>)" for f :: "stonith_t \<Rightarrow> 'x"
    by (simp add: Let_def c2_def)
  obtain m where m: "stonith_create_op (sint c2) (Some t) opname data opts = Some m"
    using create_op_Some [of "sint c2" t opname data opts] by auto
  define q where "q = \<lparr>req_msg = crm_xml_add_int m F_STONITH_TIMEOUT tmo,
                        req_response = (opts AND st_opt_sync_call \<noteq> 0),
                        req_ms_timeout = c_int (1000 * (tmo + 60))\<rparr>"
  have q: "request_call_id q = sint c2"
    unfolding q_def using create_op_call_id [OF m] .
  define X where "X = reply_stored ans
          (crm_ipc_send (crm_xml_add_int m F_STONITH_TIMEOUT tmo) (opts AND st_opt_sync_call \<noteq> 0)
             (c_int (1000 * (tmo + 60))) w)"
  define op_reply where "op_reply = fst X"
  define w2 where "w2 = snd X"
  have r: "reply_stored ans (w\<lparr>sent := sent w @ [q]\<rparr>) = (op_reply, w2)"
    by (simp add: op_reply_def w2_def X_def crm_ipc_send_def q_def)
  have "stonith_send_command st (Some opname) data od opts tmo ans w =
       (let st2 = st\<lparr>call_id := c2\<rparr>;
            out = (case od of None \<Rightarrow> None | Some _ \<Rightarrow> Some None)
        in if ipc_rc ans < 0
           then send_done (- ECOMM) op_reply ans st2 out w2
           else if opts AND st_opt_sync_call = 0
           then (if sint c2 = 0 then Returned (- EPROTO) st2 out w2
                 else free_then op_reply st2 w2 (\<lambda>w3. Returned (sint c2) st2 out w3))
           else
             (let reply_id = snd (crm_element_value_int (xml_at w2 op_reply)
                                    F_STONITH_CALLID (- 1))
              in if reply_id = sint c2
                 then (let (got, v) = crm_element_value_int (xml_at w2 op_reply)
                                        F_STONITH_RC pcmk_ok;
                           r = (if got \<noteq> 0 then - ENOMSG else v)
                       in if opts AND st_opt_discard_reply \<noteq> 0 \<or> od = None
                          then send_done r op_reply ans st2 out w2
                          else send_done r None ans st2 (Some op_reply) w2)
                 else free_then op_reply st2 w2
                        (\<lambda>w3. send_done (- ENOMSG) op_reply ans st2 out w3)))"
    unfolding stonith_send_command_def alloc_let
    using assms(1) by (simp add: Let_def assms(2) m split_def op_reply_def w2_def X_def)
  with c2 q r show thesis by (rule that)
qed

lemma send_command_step:
  assumes "token st \<noteq> None"
  shows "token (session_after (stonith_send_command st op data od opts tmo ans w)) = token st \<and>
         (if state st = stonith_disconnected \<or> op = None
          then call_id (session_after (stonith_send_command st op data od opts tmo ans w))
                 = call_id st
               \<and> sent (world_after (stonith_send_command st op data od opts tmo ans w)) = sent w
          else sint (call_id (session_after (stonith_send_command st op data od opts tmo ans w)))
                 = next_call_id (sint (call_id st))
               \<and> (\<exists>q. sent (world_after (stonith_send_command st op data od opts tmo ans w))
                         = sent w @ [q]
                       \<and> request_call_id q = next_call_id (sint (call_id st))))"
proof (cases "state st = stonith_disconnected \<or> op = None")
  case True
  then show ?thesis
    by (auto simp: stonith_send_command_def)
next
  case False
  then obtain opname where op: "op = Some opname" and st: "state st \<noteq> stonith_disconnected"
    by auto
  obtain t where t: "token st = Some t" using assms(1) by auto
  from send_command_sends [OF st t, of ans w opname data od opts tmo]
  obtain c2 :: "32 word" and q op_reply w2 where
    c2: "sint c2 = next_call_id (sint (call_id st))"
    and q: "request_call_id q = sint c2"
    and r: "reply_stored ans (w\<lparr>sent := sent w @ [q]\<rparr>) = (op_reply, w2)"
    and e: "stonith_send_command st (Some opname) data od opts tmo ans w =
       (let st2 = st\<lparr>call_id := c2\<rparr>;
            out = (case od of None \<Rightarrow> None | Some _ \<Rightarrow> Some None)
        in if ipc_rc ans < 0
           then send_done (- ECOMM) op_reply ans st2 out w2
           else if opts AND st_opt_sync_call = 0
           then (if sint c2 = 0 then Returned (- EPROTO) st2 out w2
                 else free_then op_reply st2 w2 (\<lambda>w3. Returned (sint c2) st2 out w3))
           else
             (let reply_id = snd (crm_element_value_int (xml_at w2 op_reply)
                                    F_STONITH_CALLID (- 1))
              in if reply_id = sint c2
                 then (let (got, v) = crm_element_value_int (xml_at w2 op_reply)
                                        F_STONITH_RC pcmk_ok;
                           r = (if got \<noteq> 0 then - ENOMSG else v)
                       in if opts AND st_opt_discard_reply \<noteq> 0 \<or> od = None
                          then send_done r op_reply ans st2 out w2
                          else send_done r None ans st2 (Some op_reply) w2)
                 else free_then op_reply st2 w2
                        (\<lambda>w3. send_done (- ENOMSG) op_reply ans st2 out w3)))"
    by blast
  have w2: "sent w2 = sent w @ [q]"
    using reply_stored_sent [of ans "w\<lparr>sent := sent w @ [q]\<rparr>"] by (simp add: r)
  have "token (session_after (stonith_send_command st op data od opts tmo ans w)) = token st
        \<and> call_id (session_after (stonith_send_command st op data od opts tmo ans w)) = c2
        \<and> sent (world_after (stonith_send_command st op data od opts tmo ans w)) = sent w2"
    unfolding op e
    by (simp add: Let_def split_def send_done_after free_then_session free_then_call_id
          free_then_sent)
  with op st c2 q w2 show ?thesis by simp
qed

lemma send_command_no_token:
  assumes "token st = None"
  shows "token (session_after (stonith_send_command st op data od opts tmo ans w)) = None
         \<and> sent (world_after (stonith_send_command st op data od opts tmo ans w)) = sent w"
  using assms
  by (auto simp: stonith_send_command_def stonith_create_op_def Let_def
        split: if_splits option.splits)

lemma run_commands_step:
  "run_commands st w (c # cs) =
     (let res = stonith_send_command st (cmd_op c) (cmd_data c) (cmd_output_data c)
                  (cmd_options c) (cmd_timeout c) (cmd_answer c) w
      in case res of
           Returned r st' out w' \<Rightarrow> run_commands (session_after res) (world_after res) cs
         | Double_free p st' w' \<Rightarrow> (session_after res, world_after res))"
  by (simp split: send_result.splits)

lemma run_no_token:
  "token st = None \<Longrightarrow> sent (snd (run_commands st w cmds)) = sent w"
proof (induction cmds arbitrary: st w)
  case Nil
  then show ?case by simp
next
  case (Cons c cs)
  define res where "res = stonith_send_command st (cmd_op c) (cmd_data c) (cmd_output_data c)
            (cmd_options c) (cmd_timeout c) (cmd_answer c) w"
  from send_command_no_token [OF Cons.prems]
  have s: "token (session_after res) = None" "sent (world_after res) = sent w"
    by (simp_all add: res_def)
  show ?case
    unfolding run_commands_step res_def [symmetric] Let_def
    using Cons.IH [OF s(1), of "world_after res"] s(2)
    by (cases res) simp_all
qed

lemma run_ids:
  "token st \<noteq> None \<Longrightarrow>
     \<exists>ids. map request_call_id (sent (snd (run_commands st w cmds)))
             = map request_call_id (sent w) @ ids
           \<and> successively (\<lambda>a b. b = next_call_id a) (sint (call_id st) # ids)"
proof (induction cmds arbitrary: st w)
  case Nil
  then show ?case by simp
next
  case (Cons c cs)
  define res where "res = stonith_send_command st (cmd_op c) (cmd_data c) (cmd_output_data c)
            (cmd_options c) (cmd_timeout c) (cmd_answer c) w"
  define st' where "st' = session_after res"
  define w' where "w' = world_after res"
  note step = send_command_step [OF Cons.prems, of "cmd_op c" "cmd_data c" "cmd_output_data c"
      "cmd_options c" "cmd_timeout c" "cmd_answer c" w, folded res_def, folded st'_def w'_def]
  then have tok: "token st' \<noteq> None" using Cons.prems by simp
  have "\<exists>ids0. map request_call_id (sent w') = map request_call_id (sent w) @ ids0
           \<and> successively (\<lambda>a b. b = next_call_id a) (sint (call_id st) # ids0)
           \<and> (\<forall>ids. successively (\<lambda>a b. b = next_call_id a) (sint (call_id st') # ids)
                 \<longrightarrow> successively (\<lambda>a b. b = next_call_id a) (sint (call_id st) # ids0 @ ids))"
  proof (cases "state st = stonith_disconnected \<or> cmd_op c = None")
    case True
    with step have "call_id st' = call_id st" "sent w' = sent w" by simp_all
    then have "map request_call_id (sent w') = map request_call_id (sent w) @ []
           \<and> successively (\<lambda>a b. b = next_call_id a) (sint (call_id st) # [])
           \<and> (\<forall>ids. successively (\<lambda>a b. b = next_call_id a) (sint (call_id st') # ids)
                 \<longrightarrow> successively (\<lambda>a b. b = next_call_id a) (sint (call_id st) # [] @ ids))"
      by simp
    then show ?thesis by blast
  next
    case False
    with step obtain q where q: "sent w' = sent w @ [q]"
      "request_call_id q = next_call_id (sint (call_id st))"
      and c: "sint (call_id st') = next_call_id (sint (call_id st))"
      by auto
    have "map request_call_id (sent w')
            = map request_call_id (sent w) @ [next_call_id (sint (call_id st))]
           \<and> successively (\<lambda>a b. b = next_call_id a)
               (sint (call_id st) # [next_call_id (sint (call_id st))])
           \<and> (\<forall>ids. successively (\<lambda>a b. b = next_call_id a) (sint (call_id st') # ids)
                 \<longrightarrow> successively (\<lambda>a b. b = next_call_id a)
                       (sint (call_id st) # [next_call_id (sint (call_id st))] @ ids))"
      using q c by simp
    then show ?thesis by blast
  qed
  then obtain ids0 where
    i0: "map request_call_id (sent w') = map request_call_id (sent w) @ ids0"
    and s0: "successively (\<lambda>a b. b = next_call_id a) (sint (call_id st) # ids0)"
    and ext: "\<And>ids. successively (\<lambda>a b. b = next_call_id a) (sint (call_id st') # ids)
                 \<Longrightarrow> successively (\<lambda>a b. b = next_call_id a) (sint (call_id st) # ids0 @ ids)"
    by blast
  show ?case
  proof (cases res)
    case (Returned r st'' out w'')
    then have run: "run_commands st w (c # cs) = run_commands st' w' cs"
      unfolding run_commands_step res_def [symmetric] Let_def st'_def w'_def by simp
    from Cons.IH [OF tok, of w'] obtain ids where
      ids: "map request_call_id (sent (snd (run_commands st' w' cs)))
              = map request_call_id (sent w') @ ids"
      and suc: "successively (\<lambda>a b. b = next_call_id a) (sint (call_id st') # ids)"
      by blast
    have "map request_call_id (sent (snd (run_commands st w (c # cs))))
            = map request_call_id (sent w) @ (ids0 @ ids)"
      unfolding run ids i0 by simp
    with ext [OF suc] show ?thesis by blast
  next
    case (Double_free p st'' w'')
    then have run: "run_commands st w (c # cs) = (st', w')"
      unfolding run_commands_step res_def [symmetric] Let_def st'_def w'_def by simp
    have "map request_call_id (sent (snd (run_commands st w (c # cs))))
            = map request_call_id (sent w) @ ids0"
      unfolding run using i0 by simp
    with s0 show ?thesis by blast
  qed
qed

lemma nxt_chain:
  "successively (\<lambda>a b. b = next_call_id a) (c # ids) \<Longrightarrow>
     (\<forall>i \<in> set ids. 0 < i)
     \<and> successively (\<lambda>a b. b = (if a < INT_MAX then a + 1 else 1)) ids"
proof (induction ids arbitrary: c)
  case Nil
  then show ?case by simp
next
  case (Cons i rest)
  from Cons.prems have both: "i = next_call_id c \<and> successively (\<lambda>a b. b = next_call_id a) (i # rest)"
    unfolding successively.simps(3) .
  from both have i: "i = next_call_id c" by (rule conjunct1)
  from both have rst: "successively (\<lambda>a b. b = next_call_id a) (i # rest)" by (rule conjunct2)
  from i have pos: "0 < i" by (simp add: next_call_id_def)
  from Cons.IH [OF rst] have ih: "\<forall>j \<in> set rest. 0 < j"
    "successively (\<lambda>a b. b = (if a < INT_MAX then a + 1 else 1)) rest"
    by simp_all
  have "successively (\<lambda>a b. b = (if a < INT_MAX then a + 1 else 1)) (i # rest)"
  proof (cases rest)
    case Nil
    then show ?thesis by simp
  next
    case (Cons j js)
    with rst have "j = next_call_id i" by simp
    with pos have "j = (if i < INT_MAX then i + 1 else 1)" by (simp add: next_call_id_def)
    with ih(2) Cons show ?thesis by simp
  qed
  with pos ih(1) show ?case by simp
qed

text \<open>
  Claim C3.  A new session starts with call id \<open>1\<close>.  Take any session, in any
  world, and any run of \<^verbatim>\<open>stonith_send_command\<close> calls on it, whatever their
  arguments and whatever the transport answers.  The call ids stamped on the requests
  of the run are all positive, and each one is the one before plus one, or \<open>1\<close> when
  the one before was \<^verbatim>\<open>INT_MAX\<close>.  (The requests of the run are those handed to
  the transport as long as the behaviour of the program is defined.)
\<close>

theorem call_ids_positive_and_successive:
  "sint (call_id stonith_api_new) = 1 \<and>
   (let ids = map request_call_id
                (drop (length (sent w)) (sent (snd (run_commands st w cmds))))
    in (\<forall>i \<in> set ids. 0 < i)
       \<and> successively (\<lambda>a b. b = (if a < INT_MAX then a + 1 else 1)) ids)"
proof (cases "token st = None")
  case True
  then show ?thesis by (simp add: run_no_token stonith_api_new_def)
next
  case False
  from run_ids [OF False, of w cmds] obtain ids where
    ids: "map request_call_id (sent (snd (run_commands st w cmds)))
            = map request_call_id (sent w) @ ids"
    and suc: "successively (\<lambda>a b. b = next_call_id a) (sint (call_id st) # ids)"
    by blast
  have "map request_call_id (drop (length (sent w)) (sent (snd (run_commands st w cmds))))
          = drop (length (sent w)) (map request_call_id (sent (snd (run_commands st w cmds))))"
    by (simp add: drop_map)
  also have "\<dots> = ids" by (simp add: ids)
  finally show ?thesis
    using nxt_chain [OF suc] by (simp add: stonith_api_new_def)
qed


theorem call_ids_positive_and_successive_witness:
  "map request_call_id
     (drop (length (sent new_world))
        (sent (snd (run_commands almost_wrapped_session new_world
                      [async_fence, async_fence, async_fence]))))
     = [2147483647, 1, 2]
   \<and> successively (\<lambda>a b. b = (if a < INT_MAX then a + 1 else 1)) [2147483647, 1, 2]"
proof -
  have run: "map request_call_id
     (drop (length (sent new_world))
        (sent (snd (run_commands almost_wrapped_session new_world
                      [async_fence, async_fence, async_fence]))))
     = [2147483647, 1, 2]"
    by (simp add: almost_wrapped_session_def connected_session_def stonith_api_new_def
          new_world_def async_fence_def stonith_send_command_def stonith_create_op_def
          create_xml_node_def crm_xml_add_def crm_xml_add_int_def set_attr_def
          crm_ipc_send_def reply_stored_def free_then_def free_xml_def request_call_id_def
          crm_element_value_int_def
          st_opt_sync_call_def F_STONITH_CALLID_def F_STONITH_CALLOPTS_def
          F_STONITH_TIMEOUT_def Let_def)
  from call_ids_positive_and_successive
         [of new_world almost_wrapped_session "[async_fence, async_fence, async_fence]"]
  have "successively (\<lambda>a b. b = (if a < INT_MAX then a + 1 else 1))
          (map request_call_id
             (drop (length (sent new_world))
                (sent (snd (run_commands almost_wrapped_session new_world
                              [async_fence, async_fence, async_fence])))))"
    unfolding Let_def by blast
  then have "successively (\<lambda>a b. b = (if a < INT_MAX then a + 1 else 1)) [2147483647, 1, 2]"
    unfolding run .
  with run show ?thesis by blast
qed



subsection \<open>Refusals and the loss of the connection\<close>

text \<open>The reply that the transport stored is live, and can be released once.\<close>

lemma xml_at_stored:
  "reply_stored ans w1 = (op_reply, w2) \<Longrightarrow> xml_at w2 op_reply = ipc_reply ans"
  by (auto simp: reply_stored_def xml_at_def split: option.splits)

lemma free_stored:
  "reply_stored ans w1 = (op_reply, w2) \<Longrightarrow> free_xml op_reply w2 = Inr (released ans w1)"
  by (auto simp: reply_stored_def free_xml_def xml_at_def released_def split: option.splits)

lemma free_stored_again:
  "reply_stored ans w1 = (op_reply, w2) \<Longrightarrow>
     free_xml op_reply (released ans w1) =
       (case ipc_reply ans of None \<Rightarrow> Inr w1 | Some n \<Rightarrow> Inl (length (heap w1)))"
  by (auto simp: reply_stored_def free_xml_def xml_at_def released_def split: option.splits)

lemma released_sent: "sent (released ans w1) = sent w1"
  by (simp add: released_def split: option.splits)

lemma send_command_outcome:
  assumes "state st \<noteq> stonith_disconnected" and "token st = Some t"
  obtains c2 :: "32 word" and q op_reply w2 where
    "sint c2 = next_call_id (sint (call_id st))"
    "request_call_id q = sint c2"
    "reply_stored ans (w\<lparr>sent := sent w @ [q]\<rparr>) = (op_reply, w2)"
    "stonith_send_command st (Some opname) data od opts tmo ans w =
       (let st2 = st\<lparr>call_id := c2\<rparr>;
            st3 = (if ipc_connected ans then st2 else st2\<lparr>state := stonith_disconnected\<rparr>);
            out = (case od of None \<Rightarrow> None | Some _ \<Rightarrow> Some None);
            w1 = w\<lparr>sent := sent w @ [q]\<rparr>;
            reply_id = snd (crm_element_value_int (ipc_reply ans) F_STONITH_CALLID (- 1))
        in if ipc_rc ans < 0 then Returned (- ECOMM) st3 out (released ans w1)
           else if opts AND st_opt_sync_call = 0
           then Returned (sint c2) st2 out (released ans w1)
           else if reply_id = sint c2
           then (let r = (case crm_element_value_int (ipc_reply ans) F_STONITH_RC pcmk_ok of
                            (got, v) \<Rightarrow> if got \<noteq> 0 then - ENOMSG else v)
                 in if opts AND st_opt_discard_reply \<noteq> 0 \<or> od = None
                    then Returned r st3 out (released ans w1)
                    else Returned r st3 (Some op_reply) w2)
           else (case ipc_reply ans of
                   None \<Rightarrow> Returned (- ENOMSG) st3 out w1
                 | Some n \<Rightarrow> Double_free (length (heap w)) st3 (released ans w1)))"
proof -
  from send_command_sends [OF assms, of ans w opname data od opts tmo]
  obtain c2 :: "32 word" and q op_reply w2 where
    c2: "sint c2 = next_call_id (sint (call_id st))"
    and q: "request_call_id q = sint c2"
    and r: "reply_stored ans (w\<lparr>sent := sent w @ [q]\<rparr>) = (op_reply, w2)"
    and e: "stonith_send_command st (Some opname) data od opts tmo ans w =
       (let st2 = st\<lparr>call_id := c2\<rparr>;
            out = (case od of None \<Rightarrow> None | Some _ \<Rightarrow> Some None)
        in if ipc_rc ans < 0
           then send_done (- ECOMM) op_reply ans st2 out w2
           else if opts AND st_opt_sync_call = 0
           then (if sint c2 = 0 then Returned (- EPROTO) st2 out w2
                 else free_then op_reply st2 w2 (\<lambda>w3. Returned (sint c2) st2 out w3))
           else
             (let reply_id = snd (crm_element_value_int (xml_at w2 op_reply)
                                    F_STONITH_CALLID (- 1))
              in if reply_id = sint c2
                 then (let (got, v) = crm_element_value_int (xml_at w2 op_reply)
                                        F_STONITH_RC pcmk_ok;
                           r = (if got \<noteq> 0 then - ENOMSG else v)
                       in if opts AND st_opt_discard_reply \<noteq> 0 \<or> od = None
                          then send_done r op_reply ans st2 out w2
                          else send_done r None ans st2 (Some op_reply) w2)
                 else free_then op_reply st2 w2
                        (\<lambda>w3. send_done (- ENOMSG) op_reply ans st2 out w3)))"
    by blast
  have pos: "sint c2 \<noteq> 0" by (simp add: c2 next_call_id_def)
  define w1 where "w1 = w\<lparr>sent := sent w @ [q]\<rparr>"
  define st2 where "st2 = st\<lparr>call_id := c2\<rparr>"
  define st3 where "st3 = (if ipc_connected ans then st2 else st2\<lparr>state := stonith_disconnected\<rparr>)"
  have hw: "heap w1 = heap w" by (simp add: w1_def)
  note r1 = r [folded w1_def]
  note f1 = free_stored [OF r1]
  note f2 = free_stored_again [OF r1]
  note x = xml_at_stored [OF r1]
  have d1: "send_done code op_reply ans st2 out w2 = Returned code st3 out (released ans w1)"
    for code out
    by (auto simp: send_done_def free_then_def f1 st3_def)
  have d2: "send_done code None ans st2 out w2 = Returned code st3 out w2" for code out
    by (auto simp: send_done_def free_then_def free_xml_def st3_def)
  have d3: "free_then op_reply st2 w2 (\<lambda>w3. Returned code st2 out w3)
              = Returned code st2 out (released ans w1)" for code out
    by (simp add: free_then_def f1)
  have d4: "send_done code op_reply ans st2 out (released ans w1)
              = (case ipc_reply ans of
                   None \<Rightarrow> Returned code st3 out w1
                 | Some n \<Rightarrow> Double_free (length (heap w)) st3 (released ans w1))" for code out
    by (auto simp: send_done_def free_then_def f2 st3_def hw split: option.splits)
  have d5: "free_then op_reply st2 w2 (\<lambda>w3. send_done code op_reply ans st2 out w3)
              = (case ipc_reply ans of
                   None \<Rightarrow> Returned code st3 out w1
                 | Some n \<Rightarrow> Double_free (length (heap w)) st3 (released ans w1))" for code out
    by (simp add: free_then_def f1 d4)
  have "stonith_send_command st (Some opname) data od opts tmo ans w =
       (let out = (case od of None \<Rightarrow> None | Some _ \<Rightarrow> Some None);
            reply_id = snd (crm_element_value_int (ipc_reply ans) F_STONITH_CALLID (- 1))
        in if ipc_rc ans < 0 then Returned (- ECOMM) st3 out (released ans w1)
           else if opts AND st_opt_sync_call = 0
           then Returned (sint c2) st2 out (released ans w1)
           else if reply_id = sint c2
           then (let r = (case crm_element_value_int (ipc_reply ans) F_STONITH_RC pcmk_ok of
                            (got, v) \<Rightarrow> if got \<noteq> 0 then - ENOMSG else v)
                 in if opts AND st_opt_discard_reply \<noteq> 0 \<or> od = None
                    then Returned r st3 out (released ans w1)
                    else Returned r st3 (Some op_reply) w2)
           else (case ipc_reply ans of
                   None \<Rightarrow> Returned (- ENOMSG) st3 out w1
                 | Some n \<Rightarrow> Double_free (length (heap w)) st3 (released ans w1)))"
    unfolding e st2_def [symmetric]
    by (simp add: Let_def split_def d1 d2 d3 d5 x pos)
  then have "stonith_send_command st (Some opname) data od opts tmo ans w =
       (let st2 = st\<lparr>call_id := c2\<rparr>;
            st3 = (if ipc_connected ans then st2 else st2\<lparr>state := stonith_disconnected\<rparr>);
            out = (case od of None \<Rightarrow> None | Some _ \<Rightarrow> Some None);
            w1 = w\<lparr>sent := sent w @ [q]\<rparr>;
            reply_id = snd (crm_element_value_int (ipc_reply ans) F_STONITH_CALLID (- 1))
        in if ipc_rc ans < 0 then Returned (- ECOMM) st3 out (released ans w1)
           else if opts AND st_opt_sync_call = 0
           then Returned (sint c2) st2 out (released ans w1)
           else if reply_id = sint c2
           then (let r = (case crm_element_value_int (ipc_reply ans) F_STONITH_RC pcmk_ok of
                            (got, v) \<Rightarrow> if got \<noteq> 0 then - ENOMSG else v)
                 in if opts AND st_opt_discard_reply \<noteq> 0 \<or> od = None
                    then Returned r st3 out (released ans w1)
                    else Returned r st3 (Some op_reply) w2)
           else (case ipc_reply ans of
                   None \<Rightarrow> Returned (- ENOMSG) st3 out w1
                 | Some n \<Rightarrow> Double_free (length (heap w)) st3 (released ans w1)))"
    unfolding st3_def st2_def w1_def Let_def .
  with c2 q r show thesis by (rule that)
qed



lemma refused_when_disconnected:
  "state st = stonith_disconnected \<Longrightarrow>
     stonith_send_command st op data od opts tmo ans w = Returned (- ENOTCONN) st od w"
  by (simp add: stonith_send_command_def)

text \<open>
  Claim C8, as amended.  On a disconnected session \<^verbatim>\<open>stonith_send_command\<close> returns
  \<open>-ENOTCONN\<close> and changes nothing: no call id is taken and nothing is handed to the
  transport.  On a connected session a call without an operation (a \<^verbatim>\<open>NULL\<close> name)
  returns \<open>-EINVAL\<close>, again with the session and the world as they were; so does,
  after taking a call id, a call on a session that has not signed on.  Every other call
  takes the next call id and hands one request to the transport.  When the send fails
  (the result is then \<open>-ECOMM\<close>), or when the call is synchronous and returns, the
  session is disconnected afterwards if the transport says that the channel is no
  longer connected, and the next call, whatever it is, is refused with \<open>-ENOTCONN\<close>.
  An asynchronous call whose send succeeded returns its call id without asking the
  transport, and leaves the state as it was.  The one call that does not return is a
  synchronous call that is answered with a reply for another call id (claim C4); of
  the state after it nothing is said.
\<close>

theorem send_command_fail_fast:
  "case stonith_send_command st op data od opts tmo ans w of
     Returned r st' out w' \<Rightarrow>
       (if state st = stonith_disconnected
        then r = - ENOTCONN \<and> st' = st \<and> out = od \<and> w' = w
        else if op = None
        then r = - EINVAL \<and> st' = st \<and> w' = w
        else if token st = None
        then r = - EINVAL \<and> state st' = state st \<and> sent w' = sent w
        else sint (call_id st') = next_call_id (sint (call_id st))
             \<and> (\<exists>q. sent w' = sent w @ [q] \<and> request_call_id q = sint (call_id st'))
             \<and> (if ipc_rc ans < 0 \<or> opts AND st_opt_sync_call \<noteq> 0
                 then state st' = (if ipc_connected ans then state st else stonith_disconnected)
                      \<and> (ipc_rc ans < 0 \<longrightarrow> r = - ECOMM)
                      \<and> (\<not> ipc_connected ans \<longrightarrow>
                            stonith_send_command st' op2 data2 od2 opts2 tmo2 ans2 w'
                              = Returned (- ENOTCONN) st' od2 w')
                 else r = sint (call_id st') \<and> state st' = state st))
   | Double_free p st' w' \<Rightarrow>
       state st \<noteq> stonith_disconnected \<and> op \<noteq> None \<and> token st \<noteq> None
       \<and> 0 \<le> ipc_rc ans \<and> opts AND st_opt_sync_call \<noteq> 0 \<and> ipc_reply ans \<noteq> None
       \<and> snd (crm_element_value_int (ipc_reply ans) F_STONITH_CALLID (- 1))
           \<noteq> next_call_id (sint (call_id st))"
proof (cases "state st = stonith_disconnected \<or> op = None")
  case True
  then show ?thesis
    by (auto simp: stonith_send_command_def)
next
  case False
  then obtain opname where op: "op = Some opname" and st: "state st \<noteq> stonith_disconnected"
    by auto
  show ?thesis
  proof (cases "token st")
    case None
    define c2 :: "32 word" where "c2 = (if sint (call_id st + 1) < 1 then 1 else call_id st + 1)"
    have alloc_let: "(let st1 = st\<lparr>call_id := call_id st + 1\<rparr>;
                          st2 = (if sint (call_id st1) < 1 then st1\<lparr>call_id := 1\<rparr> else st1)
                      in f st2) = f (st\<lparr>call_id := c2\<rparr>)" for f :: "stonith_t \<Rightarrow> 'x"
      by (simp add: Let_def c2_def)
    show ?thesis
      unfolding stonith_send_command_def alloc_let
      using st by (simp add: op Let_def stonith_create_op_def None)
  next
    case (Some t)
    from send_command_outcome [OF st Some, of ans w opname data od opts tmo]
    obtain c2 :: "32 word" and q op_reply w2 where
      c2: "sint c2 = next_call_id (sint (call_id st))"
      and q: "request_call_id q = sint c2"
      and r: "reply_stored ans (w\<lparr>sent := sent w @ [q]\<rparr>) = (op_reply, w2)"
      and e: "stonith_send_command st (Some opname) data od opts tmo ans w =
       (let st2 = st\<lparr>call_id := c2\<rparr>;
            st3 = (if ipc_connected ans then st2 else st2\<lparr>state := stonith_disconnected\<rparr>);
            out = (case od of None \<Rightarrow> None | Some _ \<Rightarrow> Some None);
            w1 = w\<lparr>sent := sent w @ [q]\<rparr>;
            reply_id = snd (crm_element_value_int (ipc_reply ans) F_STONITH_CALLID (- 1))
        in if ipc_rc ans < 0 then Returned (- ECOMM) st3 out (released ans w1)
           else if opts AND st_opt_sync_call = 0
           then Returned (sint c2) st2 out (released ans w1)
           else if reply_id = sint c2
           then (let r = (case crm_element_value_int (ipc_reply ans) F_STONITH_RC pcmk_ok of
                            (got, v) \<Rightarrow> if got \<noteq> 0 then - ENOMSG else v)
                 in if opts AND st_opt_discard_reply \<noteq> 0 \<or> od = None
                    then Returned r st3 out (released ans w1)
                    else Returned r st3 (Some op_reply) w2)
           else (case ipc_reply ans of
                   None \<Rightarrow> Returned (- ENOMSG) st3 out w1
                 | Some n \<Rightarrow> Double_free (length (heap w)) st3 (released ans w1)))"
      by blast
    have w2: "sent w2 = sent w @ [q]"
      using reply_stored_sent [of ans "w\<lparr>sent := sent w @ [q]\<rparr>"] by (simp add: r)
    have q': "\<exists>q'. sent w @ [q] = sent w @ [q'] \<and> request_call_id q' = next_call_id (sint (call_id st))"
      using q c2 by simp
    show ?thesis
      unfolding op e
      using st q'
      by (simp add: Let_def split_def Some c2 w2 released_sent refused_when_disconnected
            split: option.splits)
  qed
qed

theorem send_command_fail_fast_witness:
  "stonith_send_command connected_session (Some ''st_fence'') None None 0 10 failed_send new_world
     = Returned (- ECOMM) (connected_session\<lparr>call_id := 2, state := stonith_disconnected\<rparr>) None
         (new_world\<lparr>sent := [first_request ''st_fence'' 0]\<rparr>)
   \<and> stonith_send_command (connected_session\<lparr>call_id := 2, state := stonith_disconnected\<rparr>)
        (Some ''st_fence'') None None 0 10 (cmd_answer async_fence)
        (new_world\<lparr>sent := [first_request ''st_fence'' 0]\<rparr>)
     = Returned (- ENOTCONN) (connected_session\<lparr>call_id := 2, state := stonith_disconnected\<rparr>)
         None (new_world\<lparr>sent := [first_request ''st_fence'' 0]\<rparr>)
   \<and> stonith_send_command connected_session (Some ''st_fence'') None None 0 10
        (cmd_answer async_fence) new_world
     = Returned 2 (connected_session\<lparr>call_id := 2\<rparr>) None
         (new_world\<lparr>sent := [first_request ''st_fence'' 0]\<rparr>)
   \<and> sint (call_id (connected_session\<lparr>call_id := 2\<rparr>)) = 2
   \<and> state (connected_session\<lparr>call_id := 2\<rparr>) = state connected_session"
proof -
  have a: "stonith_send_command connected_session (Some ''st_fence'') None None 0 10 failed_send
             new_world
     = Returned (- ECOMM) (connected_session\<lparr>call_id := 2, state := stonith_disconnected\<rparr>) None
         (new_world\<lparr>sent := [first_request ''st_fence'' 0]\<rparr>)"
    by (simp add: failed_send_def connected_session_def stonith_api_new_def
        new_world_def stonith_send_command_def stonith_create_op_def first_request_def
        create_xml_node_def crm_xml_add_def crm_xml_add_int_def set_attr_def
        crm_ipc_send_def reply_stored_def send_done_def free_then_def free_xml_def c_int_def
        st_opt_sync_call_def F_STONITH_CALLID_def F_STONITH_CALLOPTS_def
        F_STONITH_TIMEOUT_def F_XML_TAGNAME_def F_TYPE_def T_STONITH_NG_def
        F_STONITH_CALLBACK_TOKEN_def F_STONITH_OPERATION_def ENOTCONN_def Let_def)
  have b: "stonith_send_command connected_session (Some ''st_fence'') None None 0 10
        (cmd_answer async_fence) new_world
     = Returned 2 (connected_session\<lparr>call_id := 2\<rparr>) None
         (new_world\<lparr>sent := [first_request ''st_fence'' 0]\<rparr>)"
    by (simp add: async_fence_def connected_session_def stonith_api_new_def
        new_world_def stonith_send_command_def stonith_create_op_def first_request_def
        create_xml_node_def crm_xml_add_def crm_xml_add_int_def set_attr_def
        crm_ipc_send_def reply_stored_def send_done_def free_then_def free_xml_def c_int_def
        st_opt_sync_call_def F_STONITH_CALLID_def F_STONITH_CALLOPTS_def
        F_STONITH_TIMEOUT_def F_XML_TAGNAME_def F_TYPE_def T_STONITH_NG_def
        F_STONITH_CALLBACK_TOKEN_def F_STONITH_OPERATION_def Let_def)
  have f: "ipc_rc failed_send < 0" "\<not> ipc_connected failed_send"
    "state connected_session \<noteq> stonith_disconnected" "token connected_session \<noteq> None"
    by (simp_all add: failed_send_def ENOTCONN_def connected_session_def stonith_api_new_def)
  from send_command_fail_fast
         [where st = connected_session and op = "Some ''st_fence''" and data = None
            and od = None and opts = 0 and tmo = 10 and ans = failed_send and w = new_world
            and ?op2.0 = "Some ''st_fence''" and ?data2.0 = None and ?od2.0 = None
            and ?opts2.0 = 0 and ?tmo2.0 = 10 and ?ans2.0 = "cmd_answer async_fence"]
  have "stonith_send_command (connected_session\<lparr>call_id := 2, state := stonith_disconnected\<rparr>)
        (Some ''st_fence'') None None 0 10 (cmd_answer async_fence)
        (new_world\<lparr>sent := [first_request ''st_fence'' 0]\<rparr>)
     = Returned (- ENOTCONN) (connected_session\<lparr>call_id := 2, state := stonith_disconnected\<rparr>)
         None (new_world\<lparr>sent := [first_request ''st_fence'' 0]\<rparr>)"
    unfolding a using f by simp
  moreover
  from send_command_fail_fast
         [where st = connected_session and op = "Some ''st_fence''" and data = None
            and od = None and opts = 0 and tmo = 10 and ans = "cmd_answer async_fence"
            and w = new_world]
  have "sint (call_id (connected_session\<lparr>call_id := 2\<rparr>)) = 2
        \<and> state (connected_session\<lparr>call_id := 2\<rparr>) = state connected_session"
    unfolding b using f by (simp add: async_fence_def st_opt_sync_call_def)
  ultimately show ?thesis using a b by blast
qed

text \<open>
  The claim as stated has the state follow the transport after any exchange, and has a
  call with an empty operation refused.  After an asynchronous send that succeeded on a
  channel that is then found closed, the session is still connected and the call id is
  returned.  And a call whose operation is the empty string is sent like any other: it
  takes call id \<open>2\<close> and hands the transport a request with an empty \<^verbatim>\<open>st_op\<close>.
\<close>

theorem async_send_keeps_state_counterexample:
  "ipc_connected lost_after_send = False
   \<and> stonith_send_command connected_session (Some ''st_fence'') None None 0 10
        lost_after_send new_world
       = Returned 2 (connected_session\<lparr>call_id := 2\<rparr>) None
           (new_world\<lparr>sent := [first_request ''st_fence'' 0]\<rparr>)
   \<and> state (connected_session\<lparr>call_id := 2\<rparr>) = stonith_connected_command
   \<and> stonith_send_command connected_session (Some []) None None 0 10
        (cmd_answer async_fence) new_world
       = Returned 2 (connected_session\<lparr>call_id := 2\<rparr>) None
           (new_world\<lparr>sent := [first_request [] 0]\<rparr>)
   \<and> map_of (xml_strs (req_msg (first_request [] 0))) F_STONITH_OPERATION = Some []
   \<and> request_call_id (first_request [] 0) = 2"
  by (simp add: request_call_id_def crm_element_value_int_def lost_after_send_def
        async_fence_def connected_session_def stonith_api_new_def
        new_world_def stonith_send_command_def stonith_create_op_def first_request_def
        create_xml_node_def crm_xml_add_def crm_xml_add_int_def set_attr_def
        crm_ipc_send_def reply_stored_def send_done_def free_then_def free_xml_def c_int_def
        st_opt_sync_call_def F_STONITH_CALLID_def F_STONITH_CALLOPTS_def
        F_STONITH_TIMEOUT_def F_XML_TAGNAME_def F_TYPE_def T_STONITH_NG_def
        F_STONITH_CALLBACK_TOKEN_def F_STONITH_OPERATION_def Let_def)

subsection \<open>Synchronous replies\<close>

text \<open>
  Claim C4.  Let a synchronous \<^verbatim>\<open>stonith_send_command\<close> on a connected, signed-on
  session get a reply from the transport.  One request is sent, stamped with the next
  call id.  The call returns exactly when the reply carries that call id.  The result is
  then the result code of the reply (\<open>-ENOMSG\<close> if it has none), and the caller's slot
  points to the reply, which stays live, unless the discard option is set or there is no
  slot, in which case the reply is released.  This is what the claim says.  If the reply
  carries another call id, or none, or one that is not positive, the code does not do
  what the claim says: the rejecting branch releases the reply and leaves the pointer
  \<^verbatim>\<open>op_reply\<close> as it is (the branch that hands the reply to the caller resets it, to
  ``prevent subsequent free''), and the \<^verbatim>\<open>free_xml(op_reply)\<close> after the label
  \<^verbatim>\<open>done\<close> releases the same object a second time.  No protocol error is returned:
  the behaviour is undefined.
\<close>

theorem sync_reply_validation:
  assumes "state st \<noteq> stonith_disconnected" and "token st = Some t"
    and "opts AND st_opt_sync_call \<noteq> 0"
    and "0 \<le> ipc_rc ans" and "ipc_reply ans = Some reply"
  shows "let sent_id = next_call_id (sint (call_id st));
             reply_id = snd (crm_element_value_int (Some reply) F_STONITH_CALLID (- 1));
             cleared = (case od of None \<Rightarrow> None | Some _ \<Rightarrow> Some None)
         in case stonith_send_command st (Some opname) data od opts tmo ans w of
              Returned r st' out w' \<Rightarrow>
                reply_id = sent_id
                \<and> (\<exists>q. sent w' = sent w @ [q] \<and> request_call_id q = sent_id)
                \<and> r = (case map_of (xml_ints reply) F_STONITH_RC of
                          Some v \<Rightarrow> v | None \<Rightarrow> - ENOMSG)
                \<and> (if opts AND st_opt_discard_reply \<noteq> 0 \<or> od = None
                    then out = cleared \<and> freed w' = freed w @ [reply]
                    else out = Some (Some (length (heap w)))
                         \<and> xml_at w' (Some (length (heap w))) = Some reply
                         \<and> freed w' = freed w)
            | Double_free p st' w' \<Rightarrow>
                reply_id \<noteq> sent_id
                \<and> (\<exists>q. sent w' = sent w @ [q] \<and> request_call_id q = sent_id)
                \<and> p = length (heap w)
                \<and> xml_at w' (Some p) = None
                \<and> freed w' = freed w @ [reply]"
proof -
  from send_command_outcome [OF assms(1,2), of ans w opname data od opts tmo]
  obtain c2 :: "32 word" and q op_reply w2 where
    c2: "sint c2 = next_call_id (sint (call_id st))"
    and q: "request_call_id q = sint c2"
    and r: "reply_stored ans (w\<lparr>sent := sent w @ [q]\<rparr>) = (op_reply, w2)"
    and e: "stonith_send_command st (Some opname) data od opts tmo ans w =
       (let st2 = st\<lparr>call_id := c2\<rparr>;
            st3 = (if ipc_connected ans then st2 else st2\<lparr>state := stonith_disconnected\<rparr>);
            out = (case od of None \<Rightarrow> None | Some _ \<Rightarrow> Some None);
            w1 = w\<lparr>sent := sent w @ [q]\<rparr>;
            reply_id = snd (crm_element_value_int (ipc_reply ans) F_STONITH_CALLID (- 1))
        in if ipc_rc ans < 0 then Returned (- ECOMM) st3 out (released ans w1)
           else if opts AND st_opt_sync_call = 0
           then Returned (sint c2) st2 out (released ans w1)
           else if reply_id = sint c2
           then (let r = (case crm_element_value_int (ipc_reply ans) F_STONITH_RC pcmk_ok of
                            (got, v) \<Rightarrow> if got \<noteq> 0 then - ENOMSG else v)
                 in if opts AND st_opt_discard_reply \<noteq> 0 \<or> od = None
                    then Returned r st3 out (released ans w1)
                    else Returned r st3 (Some op_reply) w2)
           else (case ipc_reply ans of
                   None \<Rightarrow> Returned (- ENOMSG) st3 out w1
                 | Some n \<Rightarrow> Double_free (length (heap w)) st3 (released ans w1)))"
    by blast
  have stored: "op_reply = Some (length (heap w))"
    "w2 = w\<lparr>sent := sent w @ [q], heap := heap w @ [Some reply]\<rparr>"
    using r by (simp_all add: reply_stored_def assms(5))
  have q': "\<exists>q'. sent w @ [q] = sent w @ [q'] \<and> request_call_id q' = next_call_id (sint (call_id st))"
    using q c2 by simp
  show ?thesis
    unfolding e
    using assms(3,4) q'
    by (simp add: Let_def split_def assms(5) c2 stored released_def xml_at_def
          crm_element_value_int_def pcmk_ok_def split: option.splits)
qed

text \<open>
  The failing input: the first synchronous call of a signed-on session, which sends call
  id \<open>2\<close>, gets the reply to call id \<open>1\<close>.  The reply, at address \<open>0\<close>, is released and
  then released again.
\<close>

theorem sync_reply_validation_witness:
  "state connected_session \<noteq> stonith_disconnected
   \<and> token connected_session = Some ''088fb640''
   \<and> (4096::int) AND st_opt_sync_call \<noteq> 0
   \<and> 0 \<le> ipc_rc (answer_with (fence_reply 1))
   \<and> ipc_reply (answer_with (fence_reply 1)) = Some (fence_reply 1)
   \<and> snd (crm_element_value_int (Some (fence_reply 1)) F_STONITH_CALLID (- 1)) = 1
   \<and> next_call_id (sint (call_id connected_session)) = 2
   \<and> stonith_send_command connected_session (Some ''st_fence'') None (Some None) 4096 10
        (answer_with (fence_reply 1)) new_world
       = Double_free 0 (connected_session\<lparr>call_id := 2\<rparr>)
           (new_world\<lparr>sent := [first_request ''st_fence'' 4096], heap := [None],
                        freed := [fence_reply 1]\<rparr>)
   \<and> xml_at (new_world\<lparr>sent := [first_request ''st_fence'' 4096], heap := [None],
                          freed := [fence_reply 1]\<rparr>) (Some 0) = None"
proof -
  have h: "state connected_session \<noteq> stonith_disconnected"
    "token connected_session = Some ''088fb640''"
    "(4096::int) AND st_opt_sync_call \<noteq> 0"
    "0 \<le> ipc_rc (answer_with (fence_reply 1))"
    "ipc_reply (answer_with (fence_reply 1)) = Some (fence_reply 1)"
    by (simp_all add: connected_session_def stonith_api_new_def st_opt_sync_call_def
          answer_with_def)
  have i: "snd (crm_element_value_int (Some (fence_reply 1)) F_STONITH_CALLID (- 1)) = 1"
    "next_call_id (sint (call_id connected_session)) = 2"
    by (simp_all add: crm_element_value_int_def fence_reply_def F_STONITH_CALLID_def
          next_call_id_def connected_session_def stonith_api_new_def INT_MAX_def)
  have e: "stonith_send_command connected_session (Some ''st_fence'') None (Some None) 4096 10
        (answer_with (fence_reply 1)) new_world
       = Double_free 0 (connected_session\<lparr>call_id := 2\<rparr>)
           (new_world\<lparr>sent := [first_request ''st_fence'' 4096], heap := [None],
                        freed := [fence_reply 1]\<rparr>)"
    by (simp add: answer_with_def connected_session_def stonith_api_new_def
        new_world_def stonith_send_command_def stonith_create_op_def first_request_def
        create_xml_node_def crm_xml_add_def crm_xml_add_int_def set_attr_def
        crm_ipc_send_def reply_stored_def send_done_def free_then_def free_xml_def xml_at_def
        c_int_def fence_reply_def crm_element_value_int_def pcmk_ok_def
        st_opt_sync_call_def F_STONITH_CALLID_def F_STONITH_CALLOPTS_def F_STONITH_RC_def
        F_STONITH_TIMEOUT_def F_XML_TAGNAME_def F_TYPE_def T_STONITH_NG_def
        F_STONITH_CALLBACK_TOKEN_def F_STONITH_OPERATION_def Let_def)
  from sync_reply_validation
         [OF h, where opname = "''st_fence''" and data = None and od = "Some None" and tmo = 10
            and w = new_world]
  have "xml_at (new_world\<lparr>sent := [first_request ''st_fence'' 4096], heap := [None],
                          freed := [fence_reply 1]\<rparr>) (Some 0) = None"
    unfolding e by (simp add: Let_def)
  with h i e show ?thesis by blast
qed


subsection \<open>Dispatch of a reply to the callbacks\<close>





subsection \<open>Registration of callbacks\<close>





subsection \<open>Subscription to notifications\<close>

lemma strcmp_eq: "(strcmp a b = 0) = (a = b)"
  by (induction a b rule: strcmp.induct) auto

lemma GCompareFunc_zero:
  "(stonithlib_GCompareFunc c d = 0) =
     (event c = None \<or> event d = None
      \<or> event c = event d \<and> (notify c = 0 \<or> notify d = 0 \<or> notify c = notify d))"
  by (auto simp: stonithlib_GCompareFunc_def strcmp_eq Let_def split: option.splits)

lemma find_custom_None:
  "(g_list_find_custom xs d f = None) = (\<not> (\<exists>x \<in> set xs. f x d = 0))"
  by (auto simp: g_list_find_custom_def find_None_iff)

text \<open>
  Claim C9, as amended.  \<^verbatim>\<open>stonith_api_add_notification\<close> looks for a subscriber that
  \<^verbatim>\<open>stonithlib_GCompareFunc\<close> compares equal to the new pair; an equal pair in the
  list is one.  If there is one, it returns \<open>-ENOTUNIQ\<close> and leaves the session and
  the world as they were.  If there is none, it appends the pair to the list, and, when
  the session is not disconnected, hands the request that activates the notification
  to the transport; on a disconnected session nothing is sent.
\<close>

theorem add_notification_duplicates:
  "let new_client = \<lparr>event = ev, notify = cb\<rparr>;
       (r, st', w') = stonith_api_add_notification st ev cb send_rc w
   in (new_client \<in> set (notify_list st) \<longrightarrow>
         (\<exists>c \<in> set (notify_list st). stonithlib_GCompareFunc c new_client = 0))
      \<and> (if \<exists>c \<in> set (notify_list st). stonithlib_GCompareFunc c new_client = 0
          then r = - ENOTUNIQ \<and> st' = st \<and> w' = w
          else r = pcmk_ok \<and> st' = st\<lparr>notify_list := notify_list st @ [new_client]\<rparr>
               \<and> w' = (if state st \<noteq> stonith_disconnected
                        then crm_ipc_send
                               (crm_xml_add
                                  (crm_xml_add (create_xml_node ''stonith_set_notification'')
                                     F_STONITH_OPERATION (Some T_STONITH_NOTIFY))
                                  F_STONITH_NOTIFY_ACTIVATE ev)
                               True (- 1) w
                        else w))"
proof -
  have dup: "\<exists>c \<in> set (notify_list st). stonithlib_GCompareFunc c \<lparr>event = ev, notify = cb\<rparr> = 0"
    if "\<lparr>event = ev, notify = cb\<rparr> \<in> set (notify_list st)"
    using that by (auto simp: GCompareFunc_zero intro!: bexI [of _ "\<lparr>event = ev, notify = cb\<rparr>"])
  show ?thesis
  proof (cases "g_list_find_custom (notify_list st) \<lparr>event = ev, notify = cb\<rparr>
                  stonithlib_GCompareFunc")
    case None
    then have "\<not> (\<exists>c \<in> set (notify_list st).
                    stonithlib_GCompareFunc c \<lparr>event = ev, notify = cb\<rparr> = 0)"
      by (simp add: find_custom_None)
    with None dup show ?thesis
      by (auto simp: stonith_api_add_notification_def stonith_set_notification_def Let_def)
  next
    case (Some x)
    then have "\<exists>c \<in> set (notify_list st).
                    stonithlib_GCompareFunc c \<lparr>event = ev, notify = cb\<rparr> = 0"
      using find_custom_None [of "notify_list st" "\<lparr>event = ev, notify = cb\<rparr>"
              stonithlib_GCompareFunc] by auto
    with Some show ?thesis
      by (simp add: stonith_api_add_notification_def Let_def)
  qed
qed

theorem add_notification_duplicates_witness:
  "\<lparr>event = Some ''st_notify_fence'', notify = 7\<rparr> \<in> set (notify_list subscribed_session)
   \<and> stonith_api_add_notification subscribed_session (Some ''st_notify_fence'') 7 0 new_world
       = (- ENOTUNIQ, subscribed_session, new_world)
   \<and> length (notify_list subscribed_session) = 1"
proof -
  have m: "\<lparr>event = Some ''st_notify_fence'', notify = 7\<rparr> \<in> set (notify_list subscribed_session)"
    by (simp add: subscribed_session_def)
  from add_notification_duplicates
         [of "Some ''st_notify_fence''" 7 subscribed_session 0 new_world] m
  have "stonith_api_add_notification subscribed_session (Some ''st_notify_fence'') 7 0 new_world
       = (- ENOTUNIQ, subscribed_session, new_world)"
    by (auto simp: Let_def split: prod.splits if_splits)
  with m show ?thesis by (simp add: subscribed_session_def)
qed

text \<open>
  The claim as stated has the activation sent for every session.  A subscription on a
  session that is not connected is recorded, and nothing is sent.
\<close>

theorem add_notification_disconnected_counterexample:
  "state stonith_api_new = stonith_disconnected
   \<and> notify_list stonith_api_new = []
   \<and> stonith_api_add_notification stonith_api_new (Some ''st_notify_fence'') 7 0 new_world
       = (pcmk_ok,
          stonith_api_new\<lparr>notify_list := [\<lparr>event = Some ''st_notify_fence'', notify = 7\<rparr>]\<rparr>,
          new_world)
   \<and> sent new_world = []"
  by (simp add: stonith_api_add_notification_def stonith_set_notification_def
        g_list_find_custom_def stonith_api_new_def new_world_def Let_def)

subsection \<open>Arguments for the agent\<close>

lemma lines_from_line:
  "CHR ''\<newline>'' \<notin> set s \<Longrightarrow>
     lines_from cur (s @ CHR ''\<newline>'' # rest) = (rev cur @ s) # lines_from [] rest"
  by (induction s arbitrary: cur) auto

lemma lines_of_rendered:
  "accepted ps \<Longrightarrow> lines_of (rendered ps) = map (\<lambda>kv. fst kv @ ''='' @ snd kv) ps"
proof (induction ps)
  case Nil
  then show ?case by (simp add: lines_of_def rendered_def)
next
  case (Cons kv ps)
  then have a: "accepted ps" and k: "plain_key (fst kv)" and v: "one_line (snd kv)"
    by (simp_all add: accepted_def)
  have nl: "CHR ''\<newline>'' \<notin> set (fst kv @ ''='' @ snd kv)"
    using k v by (simp add: plain_key_def one_line_def)
  have "rendered (kv # ps) = (fst kv @ ''='' @ snd kv) @ CHR ''\<newline>'' # rendered ps"
    by (simp add: rendered_def)
  then have "lines_of (rendered (kv # ps)) = (fst kv @ ''='' @ snd kv) # lines_of (rendered ps)"
    using lines_from_line [OF nl, of "[]" "rendered ps"] by (simp add: lines_of_def)
  with Cons.IH [OF a] show ?case by simp
qed

lemma rendered_lines:
  "concat (map (\<lambda>l. l @ ''\<newline>'') (map (\<lambda>kv. fst kv @ ''='' @ snd kv) ps)) = rendered ps"
  by (induction ps) (simp_all add: rendered_def)

lemma line_key_pair: "plain_key k \<Longrightarrow> line_key (k @ ''='' @ v) = k"
proof -
  assume "plain_key k"
  then have "\<forall>c \<in> set k. c \<noteq> CHR ''=''" by (auto simp: plain_key_def)
  then have "takeWhile (\<lambda>c. c \<noteq> CHR ''='') (k @ (''='' @ v)) = k @ takeWhile (\<lambda>c. c \<noteq> CHR ''='') (''='' @ v)"
    by (intro takeWhile_append2) simp
  then show ?thesis by (simp add: line_key_def)
qed

lemma block_of_None: "block_of None []"
  by (simp add: block_of_def rendered_def accepted_def)

lemma append_arg_written:
  assumes "block_of a ps" and "plain_key k" and "one_line v"
  shows "block_of (append_arg (Some k) (Some v) a) (ps @ (if filtered_key k then [] else [(k, v)]))"
proof (cases "filtered_key k")
  case True
  then have "append_arg (Some k) (Some v) a = a"
    by (auto simp: append_arg_def filtered_key_def)
  with True assms(1) show ?thesis by simp
next
  case False
  then have r: "append_arg (Some k) (Some v) a
                  = Some ((case a of None \<Rightarrow> [] | Some x \<Rightarrow> x) @ k @ ''='' @ v @ ''\<newline>'')"
    by (auto simp: append_arg_def filtered_key_def)
  show ?thesis
    using assms False unfolding r by (simp add: block_of_def rendered_def accepted_def)
qed

lemma append_arg_block:
  assumes "block_of a ps"
    and "case key of None \<Rightarrow> True | Some k \<Rightarrow> plain_key k"
    and "case val of None \<Rightarrow> True | Some v \<Rightarrow> one_line v"
  shows "\<exists>ext. block_of (append_arg key val a) (ps @ ext)"
proof (cases "append_arg key val a = a")
  case True
  with assms(1) have "block_of (append_arg key val a) (ps @ [])" by simp
  then show ?thesis ..
next
  case False
  then obtain k v where kv: "key = Some k" "val = Some v"
    by (auto simp: append_arg_def split: option.splits)
  from append_arg_written [OF assms(1), of k v] assms(2,3) show ?thesis
    unfolding kv by auto
qed

lemma fold_config_written:
  "block_of a ps \<Longrightarrow> list_all (\<lambda>kv. plain_key (fst kv) \<and> one_line (snd kv)) da \<Longrightarrow>
     block_of (fold (\<lambda>kv. append_config_arg (fst kv) (snd kv)) da a)
       (ps @ filter (\<lambda>kv. safe_str_neq (Some (fst kv)) (Some STONITH_ATTR_ACTION_OP)
                            \<and> \<not> filtered_key (fst kv)) da)"
proof (induction da arbitrary: a ps)
  case Nil
  then show ?case by simp
next
  case (Cons kv da)
  define step where
    "step = (if safe_str_neq (Some (fst kv)) (Some STONITH_ATTR_ACTION_OP) \<and> \<not> filtered_key (fst kv)
             then [kv] else [])"
  from Cons.prems(2) have kv: "plain_key (fst kv)" "one_line (snd kv)"
    and rest: "list_all (\<lambda>kv. plain_key (fst kv) \<and> one_line (snd kv)) da"
    by simp_all
  have "block_of (append_config_arg (fst kv) (snd kv) a) (ps @ step)"
  proof (cases "safe_str_neq (Some (fst kv)) (Some STONITH_ATTR_ACTION_OP)")
    case True
    with append_arg_written [OF Cons.prems(1) kv] show ?thesis
      by (cases "filtered_key (fst kv)") (simp_all add: append_config_arg_def step_def)
  next
    case False
    with Cons.prems(1) show ?thesis by (simp add: append_config_arg_def step_def)
  qed
  from Cons.IH [OF this rest] show ?case
    by (auto simp: step_def)
qed

lemma show_nat_one_line: "one_line (show_nat n)"
proof (induction n rule: show_nat.induct)
  case (1 n)
  have d: "CHR ''\<newline>'' \<noteq> ''0123456789'' ! k" if "k < 10" for k :: nat
  proof -
    from that have "k \<in> {0,1,2,3,4,5,6,7,8,9}" by auto
    then show ?thesis by auto
  qed
  show ?case
  proof (cases "n < 10")
    case True
    then show ?thesis using d [of n] by (subst show_nat.simps) (simp add: one_line_def)
  next
    case False
    then show ?thesis using 1 d [of "n mod 10"]
      by (subst show_nat.simps) (simp add: one_line_def)
  qed
qed

lemma victim_args_written:
  assumes l: "block_of l ps"
    and vic: "one_line vic"
    and pm: "\<And>m a. port_map = Some m \<Longrightarrow> map_of m vic = Some a \<Longrightarrow> one_line a"
    and host: "\<And>p. map_of da STONITH_ATTR_HOSTARG = Some p \<Longrightarrow> plain_key p"
  shows "\<exists>vs. block_of (victim_args agent_name vic nodeid da port_map l)
                 (ps @ (''nodename'', vic) # vs)"
proof -
  define tgt where "tgt = (case port_map of
                     None \<Rightarrow> vic
                   | Some pm \<Rightarrow> (case map_of pm vic of None \<Rightarrow> vic | Some a \<Rightarrow> a))"
  have tgt: "one_line tgt"
    using vic pm by (auto simp: tgt_def split: option.splits)
  define l1 where "l1 = append_arg (Some ''nodename'') (Some vic) l"
  have nf: "\<not> filtered_key ''nodename''"
    by (simp add: filtered_key_def CRM_META_def safe_str_eq_def)
  have l1: "block_of l1 (ps @ [(''nodename'', vic)])"
    unfolding l1_def using append_arg_written [OF l, of "''nodename''" vic] vic nf
    by (simp add: plain_key_def)
  define l2 where "l2 = (if nodeid \<noteq> 0
                then append_arg (Some ''nodeid'') (Some (show_nat nodeid)) l1
                else l1)"
  have "\<exists>ext. block_of (append_arg (Some ''nodeid'') (Some (show_nat nodeid)) l1)
                 ((ps @ [(''nodename'', vic)]) @ ext)"
    using l1 show_nat_one_line by (intro append_arg_block) (simp_all add: plain_key_def)
  moreover have "block_of l1 ((ps @ [(''nodename'', vic)]) @ [])" using l1 by simp
  ultimately have "\<exists>ext. block_of l2 ((ps @ [(''nodename'', vic)]) @ ext)"
    unfolding l2_def by (cases "nodeid \<noteq> 0") (simp, simp only: if_False, blast)
  then obtain e2 where l2: "block_of l2 ((ps @ [(''nodename'', vic)]) @ e2)" ..
  obtain param val where pv: "victim_param agent_name da = (param, val)"
    by (cases "victim_param agent_name da")
  have param: "case param of None \<Rightarrow> True | Some k \<Rightarrow> plain_key k"
    using pv host
    by (auto simp: victim_param_def Let_def plain_key_def split: option.splits if_splits)
  have "\<exists>ext. block_of (append_arg param (Some tgt) l2) (((ps @ [(''nodename'', vic)]) @ e2) @ ext)"
    using l2 param tgt by (intro append_arg_block) simp_all
  then obtain e3 where l3: "block_of (append_arg param (Some tgt) l2)
                              (((ps @ [(''nodename'', vic)]) @ e2) @ e3)" ..
  have eq: "victim_args agent_name vic nodeid da port_map l =
          (if val = None \<or> safe_str_eq val (Some ''dynamic'')
           then append_arg param (Some tgt) l2 else l2)"
    unfolding victim_args_def Let_def tgt_def l1_def l2_def pv by simp
  show ?thesis
  proof (cases "val = None \<or> safe_str_eq val (Some ''dynamic'')")
    case True
    with l3 eq have "block_of (victim_args agent_name vic nodeid da port_map l)
                       (ps @ (''nodename'', vic) # (e2 @ e3))" by simp
    then show ?thesis ..
  next
    case False
    with l2 eq have "block_of (victim_args agent_name vic nodeid da port_map l)
                       (ps @ (''nodename'', vic) # e2)" by simp
    then show ?thesis ..
  qed
qed

text \<open>
  The action that \<^verbatim>\<open>make_args\<close> names to the agent: the value of the parameter
  \<^verbatim>\<open>pcmk_\<close>action\<^verbatim>\<open>_action\<close> when the device has one, and the requested action
  otherwise.
\<close>

lemma make_args_written:
  assumes c: "carried (Some action0) victim_name device_args port_map"
  shows "\<exists>vs. block_of (make_args agent_name (Some action0) victim_name nodeid device_args port_map)
                ((''action'',
                  case (case device_args of
                          None \<Rightarrow> None
                        | Some da \<Rightarrow> map_of da (take 511 (''pcmk_'' @ action0 @ ''_action''))) of
                    None \<Rightarrow> action0 | Some v \<Rightarrow> v)
                 # vs
                 @ filter (\<lambda>kv. safe_str_neq (Some (fst kv)) (Some STONITH_ATTR_ACTION_OP)
                                  \<and> \<not> filtered_key (fst kv))
                     (case device_args of None \<Rightarrow> [] | Some da \<Rightarrow> da))
              \<and> (if victim_name = None \<or> device_args = None then vs = []
                  else \<exists>more. vs = (''nodename'', the victim_name) # more)"
proof -
  have a0: "one_line action0" using c by (simp add: carried_def)
  have da_v: "one_line v" if "device_args = Some da" "map_of da k = Some v" for da k v
    using c that map_of_SomeD [OF that(2)] by (auto simp: carried_def list_all_iff)
  have da_all: "list_all (\<lambda>kv. plain_key (fst kv) \<and> one_line (snd kv)) da"
    if "device_args = Some da" for da
    using c that by (simp add: carried_def)
  have host: "plain_key p" if "device_args = Some da" "map_of da STONITH_ATTR_HOSTARG = Some p"
    for da p
    using c that map_of_SomeD [OF that(2)] by (auto simp: carried_def list_all_iff)
  have vic: "one_line v" if "victim_name = Some v" for v
    using c that by (simp add: carried_def)
  have pm: "one_line a" if "port_map = Some m" "map_of m k = Some a" for m k a
    using c that map_of_SomeD [OF that(2)] by (auto simp: carried_def list_all_iff)
  define act where "act = (case (case device_args of None \<Rightarrow> None
                                  | Some da \<Rightarrow> map_of da (take 511 (''pcmk_'' @ action0 @ ''_action''))) of
                             None \<Rightarrow> action0 | Some v \<Rightarrow> v)"
  have act: "one_line act"
    using a0 da_v by (auto simp: act_def split: option.splits)
  define l0 where "l0 = append_arg (Some STONITH_ATTR_ACTION_OP) (Some act) None"
  have nf: "\<not> filtered_key ''action''"
    by (simp add: filtered_key_def CRM_META_def safe_str_eq_def)
  have l0: "block_of l0 [(''action'', act)]"
    unfolding l0_def STONITH_ATTR_ACTION_OP_def
    using append_arg_written [OF block_of_None, of "''action''" act] act nf
    by (simp add: plain_key_def)
  define l2 where "l2 = (case victim_name of
                    None \<Rightarrow> l0
                  | Some vic \<Rightarrow>
                      (case device_args of
                         None \<Rightarrow> l0
                       | Some da \<Rightarrow> victim_args agent_name vic nodeid da port_map l0))"
  have "\<exists>vs. block_of l2 ([(''action'', act)] @ vs)
             \<and> (if victim_name = None \<or> device_args = None then vs = []
                 else \<exists>more. vs = (''nodename'', the victim_name) # more)"
  proof (cases victim_name)
    case None
    with l0 have "block_of l2 ([(''action'', act)] @ [])" by (simp add: l2_def)
    with None show ?thesis by auto
  next
    case v: (Some v)
    show ?thesis
    proof (cases device_args)
      case None
      with l0 v have "block_of l2 ([(''action'', act)] @ [])" by (simp add: l2_def)
      with None show ?thesis by auto
    next
      case d: (Some da)
      have "\<exists>vs. block_of (victim_args agent_name v nodeid da port_map l0)
                    ([(''action'', act)] @ (''nodename'', v) # vs)"
        using l0 vic [OF v] pm host [OF d] by (intro victim_args_written) auto
      then obtain vs where "block_of (victim_args agent_name v nodeid da port_map l0)
                    ([(''action'', act)] @ (''nodename'', v) # vs)" ..
      with v d have "block_of l2 ([(''action'', act)] @ ((''nodename'', v) # vs))
                     \<and> (\<exists>more. (''nodename'', v) # vs = (''nodename'', the victim_name) # more)"
        by (simp add: l2_def)
      with v d show ?thesis by (intro exI [of _ "(''nodename'', v) # vs"]) simp
    qed
  qed
  then obtain vs where l2: "block_of l2 ([(''action'', act)] @ vs)"
    and vs: "if victim_name = None \<or> device_args = None then vs = []
             else \<exists>more. vs = (''nodename'', the victim_name) # more"
    by blast
  have "block_of (case device_args of
                None \<Rightarrow> l2
              | Some da \<Rightarrow> fold (\<lambda>kv. append_config_arg (fst kv) (snd kv)) da l2)
          (([(''action'', act)] @ vs)
           @ filter (\<lambda>kv. safe_str_neq (Some (fst kv)) (Some STONITH_ATTR_ACTION_OP)
                            \<and> \<not> filtered_key (fst kv))
               (case device_args of None \<Rightarrow> [] | Some da \<Rightarrow> da))"
  proof (cases device_args)
    case None
    with l2 show ?thesis by simp
  next
    case d: (Some da)
    from fold_config_written [OF l2 da_all [OF d]] d show ?thesis by simp
  qed
  moreover have "make_args agent_name (Some action0) victim_name nodeid device_args port_map =
          (case device_args of
                None \<Rightarrow> l2
              | Some da \<Rightarrow> fold (\<lambda>kv. append_config_arg (fst kv) (snd kv)) da l2)"
    unfolding make_args_def Let_def l2_def l0_def act_def by simp
  ultimately have "block_of (make_args agent_name (Some action0) victim_name nodeid device_args port_map)
          ((''action'', act) # vs
           @ filter (\<lambda>kv. safe_str_neq (Some (fst kv)) (Some STONITH_ATTR_ACTION_OP)
                            \<and> \<not> filtered_key (fst kv))
               (case device_args of None \<Rightarrow> [] | Some da \<Rightarrow> da))"
    by simp
  with vs show ?thesis unfolding act_def by blast
qed


lemma append_arg_Some: "\<exists>b. append_arg key val (Some a) = Some b"
  by (simp add: append_arg_def split: option.splits)

lemma fold_config_Some:
  "\<exists>b. fold (\<lambda>kv. append_config_arg (fst kv) (snd kv)) da (Some a) = Some b"
proof (induction da arbitrary: a)
  case Nil
  then show ?case by simp
next
  case (Cons kv da)
  have "\<exists>b. append_config_arg (fst kv) (snd kv) (Some a) = Some b"
    using append_arg_Some [of "Some (fst kv)" "Some (snd kv)" a]
    by (simp add: append_config_arg_def)
  then obtain b where "append_config_arg (fst kv) (snd kv) (Some a) = Some b" ..
  with Cons.IH [of b] show ?case by simp
qed

lemma victim_args_Some: "\<exists>b. victim_args agent_name vic nodeid da port_map (Some a) = Some b"
proof -
  obtain b1 where b1: "append_arg (Some ''nodename'') (Some vic) (Some a) = Some b1"
    using append_arg_Some by blast
  have "\<exists>b2. (if nodeid \<noteq> 0
                then append_arg (Some ''nodeid'') (Some (show_nat nodeid)) (Some b1)
                else Some b1) = Some b2"
    using append_arg_Some [of "Some ''nodeid''" "Some (show_nat nodeid)" b1] by simp
  then obtain b2 where b2: "(if nodeid \<noteq> 0
                then append_arg (Some ''nodeid'') (Some (show_nat nodeid)) (Some b1)
                else Some b1) = Some b2" ..
  show ?thesis
    unfolding victim_args_def Let_def b1 b2
    using append_arg_Some [of _ _ b2] by (auto split: prod.splits)
qed

lemma make_args_Some:
  "\<exists>blob. make_args agent_name (Some action0) victim_name nodeid device_args port_map = Some blob"
proof -
  define act where "act = (case (case device_args of None \<Rightarrow> None
                                  | Some da \<Rightarrow> map_of da (take 511 (''pcmk_'' @ action0 @ ''_action''))) of
                             None \<Rightarrow> action0 | Some v \<Rightarrow> v)"
  have l0: "append_arg (Some STONITH_ATTR_ACTION_OP) (Some act) None
              = Some (''action='' @ act @ ''\<newline>'')"
    by (simp add: append_arg_def STONITH_ATTR_ACTION_OP_def CRM_META_def safe_str_eq_def
          tolower_def)
  show ?thesis
    unfolding make_args_def Let_def option.case act_def [symmetric] l0
    using victim_args_Some [of agent_name _ nodeid _ port_map "''action='' @ act @ ''\<newline>''"]
      fold_config_Some
    by (auto split: option.splits) metis+
qed

lemma strstr_prefix: "prefix n h \<Longrightarrow> strstr h n"
  by (cases h) auto

lemma reserved_filtered: "reserved_key k \<Longrightarrow> filtered_key k"
  by (auto simp: reserved_key_def filtered_key_def safe_str_eq_def dest: strstr_prefix)


text \<open>
  Claim C6, as amended.  Let the parameters be such that the line format can carry
  them: names without \<^verbatim>\<open>=\<close> and newline, values without newline (the names are the
  keys of the device parameters and the value of the host argument parameter; the values
  are those of the device parameters and of the port map, the action and the target).
  For an action, with or without a target, \<^verbatim>\<open>make_args\<close> returns a block that consists
  of lines ended by a newline, each of the form key\<^verbatim>\<open>=\<close>value.  No line has a key
  that \<^verbatim>\<open>append_arg\<close> filters: one that contains \<^verbatim>\<open>pcmk_\<close> or the prefix of the
  meta attributes, or that is \<^verbatim>\<open>crm_feature_set\<close> in any case of letters.  So no
  filtered key is the key of a line of the block; and every key that the specification
  reserves is filtered.  The lines are: the line of the action, the lines for the
  target (none without a target or without device parameters, and the node name first
  otherwise), and one line for each device parameter that is not filtered and is not
  the action, in the order of the table.
\<close>

theorem make_args_filters_reserved:
  assumes "carried (Some action0) victim_name device_args port_map"
  shows "\<exists>blob vs.
           make_args agent_name (Some action0) victim_name nodeid device_args port_map = Some blob
           \<and> concat (map (\<lambda>l. l @ ''\<newline>'') (lines_of blob)) = blob
           \<and> (\<forall>l \<in> set (lines_of blob). CHR ''='' \<in> set l \<and> \<not> filtered_key (line_key l))
           \<and> (\<forall>k. filtered_key k \<longrightarrow> k \<notin> line_key ` set (lines_of blob))
           \<and> (\<forall>k. reserved_key k \<longrightarrow> filtered_key k)
           \<and> lines_of blob =
                (''action='' @
                   (case (case device_args of
                            None \<Rightarrow> None
                          | Some da \<Rightarrow> map_of da (take 511 (''pcmk_'' @ action0 @ ''_action''))) of
                      None \<Rightarrow> action0 | Some v \<Rightarrow> v))
                # vs
                @ map (\<lambda>kv. fst kv @ ''='' @ snd kv)
                    (filter (\<lambda>kv. safe_str_neq (Some (fst kv)) (Some STONITH_ATTR_ACTION_OP)
                                    \<and> \<not> filtered_key (fst kv))
                       (case device_args of None \<Rightarrow> [] | Some da \<Rightarrow> da))
           \<and> (if victim_name = None \<or> device_args = None then vs = []
               else \<exists>more. vs = (''nodename='' @ the victim_name) # more)"
proof -
  obtain blob where
    b: "make_args agent_name (Some action0) victim_name nodeid device_args port_map = Some blob"
    using make_args_Some by blast
  define act where "act = (case (case device_args of
                            None \<Rightarrow> None
                          | Some da \<Rightarrow> map_of da (take 511 (''pcmk_'' @ action0 @ ''_action''))) of
                      None \<Rightarrow> action0 | Some v \<Rightarrow> v)"
  define shown where "shown = filter (\<lambda>kv. safe_str_neq (Some (fst kv)) (Some STONITH_ATTR_ACTION_OP)
                                    \<and> \<not> filtered_key (fst kv))
                       (case device_args of None \<Rightarrow> [] | Some da \<Rightarrow> da)"
  from make_args_written [OF assms, of agent_name nodeid] obtain ps where
    blk: "block_of (Some blob) ((''action'', act) # ps @ shown)"
    and ps: "if victim_name = None \<or> device_args = None then ps = []
             else \<exists>more. ps = (''nodename'', the victim_name) # more"
    unfolding b act_def shown_def by blast
  from blk have r: "blob = rendered ((''action'', act) # ps @ shown)"
    and a: "accepted ((''action'', act) # ps @ shown)"
    by (simp_all add: block_of_def)
  have ls: "lines_of blob = map (\<lambda>kv. fst kv @ ''='' @ snd kv) ((''action'', act) # ps @ shown)"
    unfolding r by (rule lines_of_rendered [OF a])
  have c1: "concat (map (\<lambda>l. l @ ''\<newline>'') (lines_of blob)) = blob"
    unfolding ls rendered_lines by (simp add: r)
  have c2: "CHR ''='' \<in> set l \<and> \<not> filtered_key (line_key l)" if "l \<in> set (lines_of blob)" for l
  proof -
    from that have "l \<in> (\<lambda>kv. fst kv @ ''='' @ snd kv) ` set ((''action'', act) # ps @ shown)"
      unfolding ls by (simp only: set_map)
    then obtain kv where kv: "kv \<in> set ((''action'', act) # ps @ shown)"
      and l: "l = fst kv @ ''='' @ snd kv"
      by (rule imageE)
    from a kv have "\<not> filtered_key (fst kv)" "plain_key (fst kv)"
      by (auto simp: accepted_def list_all_iff)
    then show ?thesis using line_key_pair [of "fst kv" "snd kv"] by (simp add: l)
  qed
  from c2 have c3: "\<forall>k. filtered_key k \<longrightarrow> k \<notin> line_key ` set (lines_of blob)" by auto
  define vs where "vs = map (\<lambda>kv. fst kv @ ''='' @ snd kv) ps"
  have c4: "lines_of blob = (''action='' @ act) # vs @ map (\<lambda>kv. fst kv @ ''='' @ snd kv) shown"
    unfolding ls vs_def by simp
  have c5: "if victim_name = None \<or> device_args = None then vs = []
            else \<exists>more. vs = (''nodename='' @ the victim_name) # more"
    using ps by (auto simp: vs_def)
  from b c1 c2 c3 c4 c5 reserved_filtered show ?thesis
    unfolding act_def shown_def by blast
qed

theorem make_args_filters_reserved_witness:
  "carried (Some ''reboot'') (Some ''node2'') (Some ipmi_args) None
   \<and> filtered_key ''pcmk_host_list''
   \<and> make_args (Some ''fence_ipmilan'') (Some ''reboot'') (Some ''node2'') 2 (Some ipmi_args) None
       = Some ''action=reboot\<newline>nodename=node2\<newline>nodeid=2\<newline>port=node2\<newline>ipaddr=10.0.0.7\<newline>login=admin\<newline>''
   \<and> ''pcmk_host_list'' \<notin> line_key ` set (lines_of
         ''action=reboot\<newline>nodename=node2\<newline>nodeid=2\<newline>port=node2\<newline>ipaddr=10.0.0.7\<newline>login=admin\<newline>'')"
proof -
  have c: "carried (Some ''reboot'') (Some ''node2'') (Some ipmi_args) None"
    by (simp add: carried_def ipmi_args_def one_line_def plain_key_def STONITH_ATTR_HOSTARG_def)
  have f: "filtered_key ''pcmk_host_list''"
    by (simp add: filtered_key_def)
  have m: "make_args (Some ''fence_ipmilan'') (Some ''reboot'') (Some ''node2'') 2 (Some ipmi_args) None
       = Some ''action=reboot\<newline>nodename=node2\<newline>nodeid=2\<newline>port=node2\<newline>ipaddr=10.0.0.7\<newline>login=admin\<newline>''"
    by (simp add: make_args_def victim_args_def victim_param_def append_arg_def
          append_config_arg_def ipmi_args_def safe_str_eq_def safe_str_neq_def tolower_def
          STONITH_ATTR_ACTION_OP_def STONITH_ATTR_HOSTARG_def CRM_META_def show_nat.simps
          Let_def)
  from make_args_filters_reserved [OF c, of "Some ''fence_ipmilan''" 2] f
  have "''pcmk_host_list'' \<notin> line_key ` set (lines_of
         ''action=reboot\<newline>nodename=node2\<newline>nodeid=2\<newline>port=node2\<newline>ipaddr=10.0.0.7\<newline>login=admin\<newline>'')"
    unfolding m by blast
  with c f m show ?thesis by blast
qed

text \<open>
  The claim as stated is about every parameter map.  \<^verbatim>\<open>append_arg\<close> writes names and
  values as they are, so a value with a newline in it begins a line of its own, and the
  text before the first \<^verbatim>\<open>=\<close> of a name is what the agent reads as the key.  With the
  device parameter \<^verbatim>\<open>foo\<close> set to two lines, the second of them
  \<^verbatim>\<open>pcmk_host_list=node1\<close>, the block has a line whose key is the reserved
  \<^verbatim>\<open>pcmk_host_list\<close>; with a parameter named \<^verbatim>\<open>crm_feature_set=x\<close> it has a line
  whose key is \<^verbatim>\<open>crm_feature_set\<close>; and with a parameter whose name is two lines,
  a first line without \<^verbatim>\<open>=\<close>.
\<close>

theorem make_args_unescaped_counterexample:
  "make_args (Some ''fence_ipmilan'') (Some ''off'') None 0
     (Some [(''foo'', ''bar\<newline>pcmk_host_list=node1'')]) None
     = Some ''action=off\<newline>foo=bar\<newline>pcmk_host_list=node1\<newline>''
   \<and> lines_of ''action=off\<newline>foo=bar\<newline>pcmk_host_list=node1\<newline>''
       = [''action=off'', ''foo=bar'', ''pcmk_host_list=node1'']
   \<and> line_key ''pcmk_host_list=node1'' = ''pcmk_host_list''
   \<and> reserved_key ''pcmk_host_list'' \<and> filtered_key ''pcmk_host_list''
   \<and> make_args (Some ''fence_ipmilan'') (Some ''off'') None 0
        (Some [(''crm_feature_set=x'', ''1'')]) None
       = Some ''action=off\<newline>crm_feature_set=x=1\<newline>''
   \<and> lines_of ''action=off\<newline>crm_feature_set=x=1\<newline>''
       = [''action=off'', ''crm_feature_set=x=1'']
   \<and> line_key ''crm_feature_set=x=1'' = ''crm_feature_set''
   \<and> reserved_key ''crm_feature_set'' \<and> filtered_key ''crm_feature_set''
   \<and> make_args (Some ''fence_ipmilan'') (Some ''off'') None 0
        (Some [(''x\<newline>login'', ''admin'')]) None
       = Some ''action=off\<newline>x\<newline>login=admin\<newline>''
   \<and> lines_of ''action=off\<newline>x\<newline>login=admin\<newline>'' = [''action=off'', ''x'', ''login=admin'']
   \<and> CHR ''='' \<notin> set ''x''"
  by (simp add: make_args_def append_arg_def append_config_arg_def safe_str_eq_def
        safe_str_neq_def tolower_def STONITH_ATTR_ACTION_OP_def CRM_META_def lines_of_def
        line_key_def reserved_key_def filtered_key_def Let_def)

end
